theory Spec2Isabelle
  imports Complex_Main
begin

section \<open>JavaScript numbers\<close>

text \<open>
  Numbers written in a document are finite and are modelled as \<^typ>\<open>real\<close>; rounding
  and overflow of the double format are outside the model.  Operations that leave the
  finite range on finite arguments (division, square root, the results of the expression
  evaluator) are computed in \<open>jsnum\<close>, which adds the special values of the double
  format.  \<open>Fin 0\<close> is the positive zero, \<open>NegZero\<close> the negative one.
\<close>

datatype jsnum = Fin real | NegZero | PInf | NInf | NaN

fun js_isneg :: "jsnum \<Rightarrow> bool" where
  "js_isneg (Fin x) = (x < 0)"
| "js_isneg NegZero = True"
| "js_isneg NInf = True"
| "js_isneg PInf = False"
| "js_isneg NaN = False"

fun js_iszero :: "jsnum \<Rightarrow> bool" where
  "js_iszero (Fin x) = (x = 0)"
| "js_iszero NegZero = True"
| "js_iszero PInf = False"
| "js_iszero NInf = False"
| "js_iszero NaN = False"

fun js_isinf :: "jsnum \<Rightarrow> bool" where
  "js_isinf PInf = True"
| "js_isinf NInf = True"
| "js_isinf (Fin x) = False"
| "js_isinf NegZero = False"
| "js_isinf NaN = False"

fun js_val :: "jsnum \<Rightarrow> real" where
  "js_val (Fin x) = x"
| "js_val NegZero = 0"
| "js_val PInf = 0"
| "js_val NInf = 0"
| "js_val NaN = 0"

definition signed_zero :: "bool \<Rightarrow> jsnum" where
  "signed_zero neg = (if neg then NegZero else Fin 0)"

definition signed_inf :: "bool \<Rightarrow> jsnum" where
  "signed_inf neg = (if neg then NInf else PInf)"

text \<open>Unary minus flips the sign, also of zeros and infinities.\<close>

fun js_neg :: "jsnum \<Rightarrow> jsnum" where
  "js_neg (Fin x) = (if x = 0 then NegZero else Fin (- x))"
| "js_neg NegZero = Fin 0"
| "js_neg PInf = NInf"
| "js_neg NInf = PInf"
| "js_neg NaN = NaN"

text \<open>Addition: opposite infinities give NaN; a zero sum is negative only for two
  negative zeros.\<close>

fun js_add :: "jsnum \<Rightarrow> jsnum \<Rightarrow> jsnum" where
  "js_add NaN b = NaN"
| "js_add a NaN = NaN"
| "js_add PInf NInf = NaN"
| "js_add NInf PInf = NaN"
| "js_add PInf b = PInf"
| "js_add NInf b = NInf"
| "js_add a PInf = PInf"
| "js_add a NInf = NInf"
| "js_add NegZero b = b"
| "js_add a NegZero = a"
| "js_add (Fin x) (Fin y) = Fin (x + y)"

definition js_sub :: "jsnum \<Rightarrow> jsnum \<Rightarrow> jsnum" where
  "js_sub a b = js_add a (js_neg b)"

text \<open>Multiplication and division: the sign of the result is the exclusive or of the
  signs; zero times infinity, zero over zero and infinity over infinity are NaN.\<close>

definition js_mul :: "jsnum \<Rightarrow> jsnum \<Rightarrow> jsnum" where
  "js_mul a b =
     (if a = NaN \<or> b = NaN then NaN
      else if (js_iszero a \<and> js_isinf b) \<or> (js_isinf a \<and> js_iszero b) then NaN
      else if js_isinf a \<or> js_isinf b then signed_inf (js_isneg a \<noteq> js_isneg b)
      else if js_iszero a \<or> js_iszero b then signed_zero (js_isneg a \<noteq> js_isneg b)
      else Fin (js_val a * js_val b))"

definition js_div :: "jsnum \<Rightarrow> jsnum \<Rightarrow> jsnum" where
  "js_div a b =
     (if a = NaN \<or> b = NaN then NaN
      else if js_isinf a \<and> js_isinf b then NaN
      else if js_iszero a \<and> js_iszero b then NaN
      else if js_isinf a then signed_inf (js_isneg a \<noteq> js_isneg b)
      else if js_isinf b then signed_zero (js_isneg a \<noteq> js_isneg b)
      else if js_iszero b then signed_inf (js_isneg a \<noteq> js_isneg b)
      else if js_iszero a then signed_zero (js_isneg a \<noteq> js_isneg b)
      else Fin (js_val a / js_val b))"





section \<open>Stagger delays (runtime interpreter)\<close>

text \<open>
  \<open>StaggerDefinition\<close> of the schema: the per-target increment \<open>each\<close> and the origin
  policy \<open>from\<close> (here \<open>origin\<close>), which is one of four names or a number and may be
  absent.  The fields \<open>grid\<close>, \<open>axis\<close> and \<open>ease\<close> are not read by the interpreter.
\<close>

datatype StaggerFrom = First | Last | Center | Edges | FromIndex real

record StaggerDefinition =
  each :: real
  origin :: "StaggerFrom option"

text \<open>
  \<open>calculateStaggerDelay(index, total, stagger)\<close>: \<open>stagger.from ?? 'first'\<close>, then the
  chain of comparisons on the origin, then \<open>effectiveIndex * stagger.each\<close>.
\<close>

definition calculateStaggerDelay :: "real \<Rightarrow> real \<Rightarrow> StaggerDefinition \<Rightarrow> real" where
  "calculateStaggerDelay index total_count stagger =
     (let from = (case origin stagger of None \<Rightarrow> First | Some f \<Rightarrow> f);
          effectiveIndex =
            (case from of
               Last \<Rightarrow> total_count - 1 - index
             | Center \<Rightarrow> (let center = (total_count - 1) / 2 in \<bar>index - center\<bar>)
             | Edges \<Rightarrow> (let center = (total_count - 1) / 2 in center - \<bar>index - center\<bar>)
             | FromIndex k \<Rightarrow> \<bar>index - k\<bar>
             | First \<Rightarrow> index)
      in effectiveIndex * each stagger)"

section \<open>Spring approximation (stylesheet backend)\<close>

text \<open>\<open>SpringConfig\<close> of the schema: every field is optional.\<close>

datatype SpringPreset = Gentle | Wobbly | Stiff | Slow | Molasses | Bouncy

record SpringConfig =
  stiffness :: "real option"
  damping :: "real option"
  mass :: "real option"
  velocity :: "real option"
  restDelta :: "real option"
  restSpeed :: "real option"
  preset :: "SpringPreset option"
  duration :: "real option"
  bounce :: "real option"




text \<open>Destructuring with defaults: \<open>const { stiffness = 100, damping = 10, mass = 1 }\<close>.\<close>

definition orDefault :: "'a option \<Rightarrow> 'a \<Rightarrow> 'a" where
  "orDefault v d = (case v of None \<Rightarrow> d | Some x \<Rightarrow> x)"




text \<open>The spring \<open>{stiffness: 400, damping: 10, mass: 1}\<close>.\<close>

definition bouncySpring :: SpringConfig where
  "bouncySpring = \<lparr>stiffness = Some 400, damping = Some 10, mass = Some 1,
     velocity = None, restDelta = None, restSpeed = None, preset = None,
     duration = None, bounce = None\<rparr>"


section \<open>Expression resolver (parser)\<close>

subsection \<open>Characters and strings\<close>

text \<open>
  Strings are lists of characters; the model covers ASCII text.  \<open>isWordChar\<close> is the
  class \<open>\w\<close> of the regular expressions, \<open>isSpaceChar\<close> the ASCII part of \<open>\s\<close> (tab,
  line feed, vertical tab, form feed, carriage return, space).
\<close>

definition isDigit :: "char \<Rightarrow> bool" where
  "isDigit c = (c \<in> set ''0123456789'')"

definition isWordChar :: "char \<Rightarrow> bool" where
  "isWordChar c =
     (c \<in> set ''abcdefghijklmnopqrstuvwxyzABCDEFGHIJKLMNOPQRSTUVWXYZ0123456789_'')"

definition isSpaceChar :: "char \<Rightarrow> bool" where
  "isSpaceChar c = (c \<in> set [CHR 0x09, CHR 0x0A, CHR 0x0B, CHR 0x0C, CHR 0x0D, CHR '' ''])"

text \<open>The characters that \<open>/[^0-9+\-*/.() ]/g\<close> leaves in place.\<close>

definition isAllowedChar :: "char \<Rightarrow> bool" where
  "isAllowedChar c = (c \<in> set ''0123456789+-*/.() '')"

definition startsWith :: "string \<Rightarrow> string \<Rightarrow> bool" where
  "startsWith s p = (take (length p) s = p)"

definition endsWith :: "string \<Rightarrow> string \<Rightarrow> bool" where
  "endsWith s p = (length p \<le> length s \<and> drop (length s - length p) s = p)"

text \<open>\<open>name.split('.')\<close>: the pieces between the dots; never the empty list.\<close>

fun splitDots :: "string \<Rightarrow> string list" where
  "splitDots [] = [[]]"
| "splitDots (c # cs) =
     (if c = CHR ''.'' then [] # splitDots cs
      else (case splitDots cs of
              p # ps \<Rightarrow> (c # p) # ps
            | [] \<Rightarrow> [[c]]))"

text \<open>The value of a run of decimal digits, and the decimal digits of a natural number.\<close>

definition digitVal :: "char \<Rightarrow> nat" where
  "digitVal c = length (takeWhile (\<lambda>d. d \<noteq> c) ''0123456789'')"

definition digitsValue :: "string \<Rightarrow> nat" where
  "digitsValue ds = foldl (\<lambda>a c. 10 * a + digitVal c) 0 ds"

function natToDigits :: "nat \<Rightarrow> string" where
  "natToDigits n =
     (if n < 10 then [''0123456789'' ! n]
      else natToDigits (n div 10) @ [''0123456789'' ! (n mod 10)])"
  by pat_completeness auto
termination
  by (relation "measure id") auto

declare natToDigits.simps [simp del]

subsection \<open>Variables and their lookup\<close>

text \<open>
  \<open>VariableValue\<close> of the schema is a number, a string or an array of numbers; the
  variable table is the object \<open>this.variables\<close>.  \<open>js_value\<close> are the values the lookup
  handles: \<open>JVariables\<close> stands for the table itself, the starting point of the walk.
  Property lookup is modelled on own properties; properties inherited from the
  prototypes of objects and arrays are outside the model.
\<close>

datatype VariableValue = VNum real | VStr string | VArr "real list"

type_synonym Variables = "string \<rightharpoonup> VariableValue"

datatype js_value = Undefined | JNumber real | JString string | JArray "real list" | JVariables

fun ofVariable :: "VariableValue \<Rightarrow> js_value" where
  "ofVariable (VNum x) = JNumber x"
| "ofVariable (VStr s) = JString s"
| "ofVariable (VArr xs) = JArray xs"

text \<open>An array index is written in decimal without a leading zero.\<close>

definition arrayIndex :: "string \<Rightarrow> nat option" where
  "arrayIndex part =
     (if part \<noteq> [] \<and> list_all isDigit part \<and> (part = ''0'' \<or> hd part \<noteq> CHR ''0'')
      then Some (digitsValue part) else None)"

text \<open>\<open>current[part]\<close> for an object \<open>current\<close>: a key of the table, or an index or the
  length of an array.\<close>

fun getProperty :: "Variables \<Rightarrow> js_value \<Rightarrow> string \<Rightarrow> js_value" where
  "getProperty vars JVariables part =
     (case vars part of None \<Rightarrow> Undefined | Some v \<Rightarrow> ofVariable v)"
| "getProperty vars (JArray xs) part =
     (if part = ''length'' then JNumber (real (length xs))
      else (case arrayIndex part of
              Some i \<Rightarrow> (if i < length xs then JNumber (xs ! i) else Undefined)
            | None \<Rightarrow> Undefined))"
| "getProperty vars v part = Undefined"

text \<open>\<open>typeof current === 'object'\<close> (and not null): the table and arrays.\<close>

fun isObject :: "js_value \<Rightarrow> bool" where
  "isObject JVariables = True"
| "isObject (JArray xs) = True"
| "isObject v = False"

text \<open>The loop of \<open>getVariable\<close> over the parts of the name, with its early return.\<close>

fun walkParts :: "Variables \<Rightarrow> js_value \<Rightarrow> string list \<Rightarrow> js_value" where
  "walkParts vars current [] = current"
| "walkParts vars current (part # parts) =
     (if \<not> isObject current then Undefined
      else walkParts vars (getProperty vars current part) parts)"

definition getVariable :: "Variables \<Rightarrow> string \<Rightarrow> js_value" where
  "getVariable vars name = walkParts vars JVariables (splitDots name)"

subsection \<open>Expression literals\<close>

text \<open>
  \<open>extractVariables\<close>: the matches of \<open>/\$(\w+)/g\<close> from left to right, each without its
  dollar sign.  A match takes the longest run of word characters after the dollar.
\<close>

function extractVariables :: "string \<Rightarrow> string list" where
  "extractVariables [] = []"
| "extractVariables (c # cs) =
     (if c = CHR ''$'' \<and> takeWhile isWordChar cs \<noteq> []
      then takeWhile isWordChar cs # extractVariables (dropWhile isWordChar cs)
      else extractVariables cs)"
  by pat_completeness auto
termination
  by (relation "measure length") (auto simp: length_dropWhile_le less_Suc_eq_le)

text \<open>
  \<open>isExpression\<close>: the test of \<open>/^\$[\w.]+$|^\$\{.+\}$/\<close>.  The dot of the second
  alternative matches any character but a line terminator.
\<close>

definition isExpression :: "string \<Rightarrow> bool" where
  "isExpression s =
     ((startsWith s ''$'' \<and> drop 1 s \<noteq> []
         \<and> list_all (\<lambda>c. isWordChar c \<or> c = CHR ''.'') (drop 1 s))
      \<or> (startsWith s ''${'' \<and> endsWith s ''}'' \<and> butlast (drop 2 s) \<noteq> []
         \<and> list_all (\<lambda>c. c \<noteq> CHR 0x0A \<and> c \<noteq> CHR 0x0D) (butlast (drop 2 s))))"

subsection \<open>Text of a value\<close>

text \<open>
  \<open>String(value)\<close>.  For a number the model gives the text of the integers up to
  \<open>2^53\<close> in absolute value, which is their decimal digits; the text of other numbers
  is outside the model (\<open>None\<close>).
\<close>

definition numberToString :: "real \<Rightarrow> string option" where
  "numberToString x =
     (if x = of_int \<lfloor>x\<rfloor> \<and> \<bar>x\<bar> \<le> 9007199254740992
      then Some ((if x < 0 then ''-'' else []) @ natToDigits (nat \<lfloor>\<bar>x\<bar>\<rfloor>))
      else None)"

fun joinCommas :: "string option list \<Rightarrow> string option" where
  "joinCommas [] = Some []"
| "joinCommas [x] = x"
| "joinCommas (x # y # ys) =
     (case (x, joinCommas (y # ys)) of
        (Some a, Some b) \<Rightarrow> Some (a @ '','' @ b)
      | _ \<Rightarrow> None)"

fun valueToString :: "js_value \<Rightarrow> string option" where
  "valueToString (JNumber x) = numberToString x"
| "valueToString (JString s) = Some s"
| "valueToString (JArray xs) = joinCommas (map numberToString xs)"
| "valueToString Undefined = Some ''undefined''"
| "valueToString JVariables = Some ''[object Object]''"

text \<open>
  \<open>resolved.replace(new RegExp('\\$' + varName, 'g'), text)\<close>: every occurrence of the
  dollar sign followed by the name, from left to right, is replaced.  A dollar sign in
  the replacement text has a special meaning to \<open>replace\<close>; such texts are outside the
  model, as are texts that \<open>String\<close> does not model (\<open>None\<close>).
\<close>

function replaceAll :: "string \<Rightarrow> string \<Rightarrow> string \<Rightarrow> string" where
  "replaceAll pat rep [] = []"
| "replaceAll pat rep (c # cs) =
     (if pat \<noteq> [] \<and> take (length pat) (c # cs) = pat
      then rep @ replaceAll pat rep (drop (length pat - 1) cs)
      else c # replaceAll pat rep cs)"
  by pat_completeness auto
termination
  by (relation "measure (\<lambda>(pat, rep, s). length s)") auto

definition replaceVariable :: "string option \<Rightarrow> string \<Rightarrow> string option \<Rightarrow> string option" where
  "replaceVariable resolved varName text =
     (case (resolved, text) of
        (Some r, Some t) \<Rightarrow>
          (if CHR ''$'' \<in> set t then None else Some (replaceAll (CHR ''$'' # varName) t r))
      | _ \<Rightarrow> None)"

subsection \<open>The restricted evaluator\<close>

text \<open>
  The resolver hands the sanitized text \<open>s\<close> to the host:
  \<open>Function('"use strict"; return (' + s + ')')()\<close>.  The model covers the texts
  made of decimal literals, the binary and unary operators \<open>+ - * /\<close>, parentheses
  and spaces, and the texts that are certain to throw.  The exponentiation operator,
  block comments and regular expression literals are outside the model
  (\<open>Unmodelled\<close>).  All values of the modelled texts are numbers.
\<close>

datatype token = TNum real | TPlus | TMinus | TStar | TSlash | TLParen | TRParen

datatype 'a parsed = Parsed 'a | Throws | Unmodelled

definition consToken :: "token \<Rightarrow> token list parsed \<Rightarrow> token list parsed" where
  "consToken t r = (case r of Parsed ts \<Rightarrow> Parsed (t # ts) | Throws \<Rightarrow> Throws | Unmodelled \<Rightarrow> Unmodelled)"

text \<open>
  The lexer; \<open>operand\<close> tells whether the last token ended an operand, which decides
  whether a slash is the division operator or starts a regular expression literal.
  In strict code a literal with a leading zero before more digits is a syntax error,
  as are \<open>++\<close> and \<open>--\<close> (nothing in these texts can be assigned to), a line comment
  (which hides the closing parenthesis) and a dot that is not part of a literal.
\<close>

function lexer :: "bool \<Rightarrow> string \<Rightarrow> token list parsed" where
  "lexer operand [] = Parsed []"
| "lexer operand (c # cs) =
     (if c = CHR '' '' then lexer operand cs
      else if isDigit c then
        (let intPart = c # takeWhile isDigit cs; rest = dropWhile isDigit cs
         in if c = CHR ''0'' \<and> takeWhile isDigit cs \<noteq> [] then Throws
            else (case rest of
                    d # rest' \<Rightarrow>
                      (if d = CHR ''.'' then
                         (let frac = takeWhile isDigit rest'
                          in consToken
                               (TNum (real (digitsValue intPart)
                                      + real (digitsValue frac) / 10 ^ length frac))
                               (lexer True (dropWhile isDigit rest')))
                       else consToken (TNum (real (digitsValue intPart))) (lexer True rest))
                  | [] \<Rightarrow> consToken (TNum (real (digitsValue intPart))) (lexer True rest)))
      else if c = CHR ''.'' then
        (let frac = takeWhile isDigit cs
         in if frac = [] then Throws
            else consToken (TNum (real (digitsValue frac) / 10 ^ length frac))
                   (lexer True (dropWhile isDigit cs)))
      else if c = CHR ''+'' then
        (if take 1 cs = ''+'' then Throws else consToken TPlus (lexer False cs))
      else if c = CHR ''-'' then
        (if take 1 cs = ''-'' then Throws else consToken TMinus (lexer False cs))
      else if c = CHR ''*'' then
        (if take 1 cs = ''*'' then Unmodelled else consToken TStar (lexer False cs))
      else if c = CHR ''/'' then
        (if take 1 cs = ''/'' then Throws
         else if take 1 cs = ''*'' then Unmodelled
         else if operand then consToken TSlash (lexer False cs)
         else Unmodelled)
      else if c = CHR ''('' then consToken TLParen (lexer False cs)
      else if c = CHR '')'' then consToken TRParen (lexer True cs)
      else Unmodelled)"
  by pat_completeness auto
termination
proof (relation "measure (\<lambda>(operand, s). length s)")
  show "wf (measure (\<lambda>(operand, s). length s))" by simp
next
  fix operand :: bool and c :: char and cs x xa x21 x22
  assume "xa = dropWhile isDigit cs" "xa = x21 # x22"
  then have "length (x21 # x22) = length (dropWhile isDigit cs)" by simp
  then have "length x22 < length (dropWhile isDigit cs)" by simp
  then show "((True, dropWhile isDigit x22), operand, c # cs) \<in> measure (\<lambda>(operand, s). length s)"
    using length_dropWhile_le [of isDigit cs] length_dropWhile_le [of isDigit x22] by simp
qed (auto simp: length_dropWhile_le less_Suc_eq_le)

declare lexer.simps [simp del]

text \<open>
  The token sequence is evaluated with a stack of pending operators and a stack of
  values.  Unary operators bind tighter than \<open>*\<close> and \<open>/\<close>, which bind tighter than
  \<open>+\<close> and \<open>-\<close>; binary operators of equal precedence associate to the left.
\<close>

datatype pending = OAdd | OSub | OMul | ODiv | OPos | ONeg | OParen

fun prec :: "pending \<Rightarrow> nat" where
  "prec OAdd = 1"
| "prec OSub = 1"
| "prec OMul = 2"
| "prec ODiv = 2"
| "prec OPos = 3"
| "prec ONeg = 3"
| "prec OParen = 0"

fun applyPending :: "pending \<Rightarrow> jsnum list \<Rightarrow> jsnum list option" where
  "applyPending OAdd (b # a # vs) = Some (js_add a b # vs)"
| "applyPending OSub (b # a # vs) = Some (js_sub a b # vs)"
| "applyPending OMul (b # a # vs) = Some (js_mul a b # vs)"
| "applyPending ODiv (b # a # vs) = Some (js_div a b # vs)"
| "applyPending OPos (a # vs) = Some (a # vs)"
| "applyPending ONeg (a # vs) = Some (js_neg a # vs)"
| "applyPending p vs = None"

text \<open>Apply the pending operators of precedence at least \<open>p\<close>, down to the innermost
  open parenthesis.\<close>

fun reduce :: "nat \<Rightarrow> pending list \<Rightarrow> jsnum list \<Rightarrow> (pending list \<times> jsnum list) option" where
  "reduce p [] vs = Some ([], vs)"
| "reduce p (q # ops) vs =
     (if q \<noteq> OParen \<and> p \<le> prec q
      then (case applyPending q vs of Some vs' \<Rightarrow> reduce p ops vs' | None \<Rightarrow> None)
      else Some (q # ops, vs))"

text \<open>
  \<open>run expect\<close>: \<open>expect\<close> holds where the grammar wants an operand.  An operator or a
  closing parenthesis there, two operands in a row, an unmatched parenthesis and an
  empty pair of parentheses are syntax errors; an operand followed by an opening
  parenthesis is a call of something that is not a function, which throws as well.
\<close>

fun run :: "bool \<Rightarrow> token list \<Rightarrow> pending list \<Rightarrow> jsnum list \<Rightarrow> jsnum parsed" where
  "run True [] ops vs = Throws"
| "run False [] ops vs =
     (case reduce 1 ops vs of
        Some ([], [v]) \<Rightarrow> Parsed v
      | Some (OParen # ops', vs') \<Rightarrow> Throws
      | _ \<Rightarrow> Unmodelled)"
| "run True (TNum x # ts) ops vs = run False ts ops (Fin x # vs)"
| "run True (TPlus # ts) ops vs = run True ts (OPos # ops) vs"
| "run True (TMinus # ts) ops vs = run True ts (ONeg # ops) vs"
| "run True (TLParen # ts) ops vs = run True ts (OParen # ops) vs"
| "run True (TStar # ts) ops vs = Throws"
| "run True (TSlash # ts) ops vs = Throws"
| "run True (TRParen # ts) ops vs = Throws"
| "run False (TPlus # ts) ops vs =
     (case reduce 1 ops vs of Some (ops', vs') \<Rightarrow> run True ts (OAdd # ops') vs' | None \<Rightarrow> Unmodelled)"
| "run False (TMinus # ts) ops vs =
     (case reduce 1 ops vs of Some (ops', vs') \<Rightarrow> run True ts (OSub # ops') vs' | None \<Rightarrow> Unmodelled)"
| "run False (TStar # ts) ops vs =
     (case reduce 2 ops vs of Some (ops', vs') \<Rightarrow> run True ts (OMul # ops') vs' | None \<Rightarrow> Unmodelled)"
| "run False (TSlash # ts) ops vs =
     (case reduce 2 ops vs of Some (ops', vs') \<Rightarrow> run True ts (ODiv # ops') vs' | None \<Rightarrow> Unmodelled)"
| "run False (TRParen # ts) ops vs =
     (case reduce 1 ops vs of
        Some (OParen # ops', vs') \<Rightarrow> run False ts ops' vs'
      | Some ([], vs') \<Rightarrow> Throws
      | _ \<Rightarrow> Unmodelled)"
| "run False (TNum x # ts) ops vs = Throws"
| "run False (TLParen # ts) ops vs = Throws"

definition strictFunction :: "string \<Rightarrow> jsnum parsed" where
  "strictFunction sanitized =
     (case lexer False (''('' @ sanitized @ '')'') of
        Parsed ts \<Rightarrow> run True ts [] []
      | Throws \<Rightarrow> Throws
      | Unmodelled \<Rightarrow> Unmodelled)"

subsection \<open>Resolution of a field\<close>

text \<open>
  \<open>ParseError\<close>: the kind, the message and the path.  A message is kept as its
  template and the values put into it; the text that the host gives for a thrown
  error is not part of the model.
\<close>

datatype ErrorType = Validation | Variable | Expression

datatype ErrorMessage =
    NotANumber string string
  | InvalidFormat string string
  | UnknownVariable string string
  | InvalidCharacters string string
  | NotANumberResult string string
  | EvaluationFailed string string

record ParseError =
  etype :: ErrorType
  message :: ErrorMessage
  path :: string

text \<open>
  The loop of \<open>evaluateComplexExpression\<close> over the extracted names: the first name
  that is undefined ends it (\<open>Inl\<close>); otherwise the text with every name replaced
  (\<open>Inr\<close>).
\<close>

fun substituteVariables :: "Variables \<Rightarrow> string list \<Rightarrow> string option \<Rightarrow> string + string option" where
  "substituteVariables vars [] resolved = Inr resolved"
| "substituteVariables vars (varName # rest) resolved =
     (case getVariable vars varName of
        Undefined \<Rightarrow> Inl varName
      | v \<Rightarrow> substituteVariables vars rest (replaceVariable resolved varName (valueToString v)))"

text \<open>
  \<open>evaluateComplexExpression(expr, path)\<close> with the error list \<open>this.errors\<close> passed in
  and returned.  The result is \<open>None\<close> where the text handed to \<open>String\<close>, \<open>replace\<close> or
  \<open>Function\<close> is outside the model.
\<close>

definition evaluateComplexExpression ::
  "Variables \<Rightarrow> string \<Rightarrow> string \<Rightarrow> ParseError list \<Rightarrow> (jsnum \<times> ParseError list) option" where
  "evaluateComplexExpression vars expr pth errors =
     (case substituteVariables vars (extractVariables expr) (Some expr) of
        Inl varName \<Rightarrow>
          Some (Fin 0, errors @ [\<lparr>etype = Variable, message = UnknownVariable varName pth, path = pth\<rparr>])
      | Inr None \<Rightarrow> None
      | Inr (Some resolved) \<Rightarrow>
          (let sanitized = filter isAllowedChar resolved
           in if sanitized \<noteq> filter (\<lambda>c. \<not> isSpaceChar c) resolved
              then Some (Fin 0, errors @ [\<lparr>etype = Expression, message = InvalidCharacters expr pth, path = pth\<rparr>])
              else (case strictFunction sanitized of
                      Unmodelled \<Rightarrow> None
                    | Throws \<Rightarrow>
                        Some (Fin 0, errors @ [\<lparr>etype = Expression, message = EvaluationFailed expr pth, path = pth\<rparr>])
                    | Parsed result \<Rightarrow>
                        (if result = NaN
                         then Some (Fin 0, errors @ [\<lparr>etype = Expression, message = NotANumberResult expr pth, path = pth\<rparr>])
                         else Some (result, errors)))))"

text \<open>\<open>evaluateExpression(expression, path)\<close>: a plain reference, a braced expression,
  or neither.\<close>

definition evaluateExpression ::
  "Variables \<Rightarrow> string \<Rightarrow> string \<Rightarrow> ParseError list \<Rightarrow> (jsnum \<times> ParseError list) option" where
  "evaluateExpression vars expression pth errors =
     (if startsWith expression ''$'' \<and> \<not> startsWith expression ''${'' then
        (let varName = drop 1 expression
         in case getVariable vars varName of
              JNumber resolved \<Rightarrow> Some (Fin resolved, errors)
            | _ \<Rightarrow> Some (Fin 0, errors @ [\<lparr>etype = Expression, message = NotANumber varName pth, path = pth\<rparr>]))
      else if startsWith expression ''${'' \<and> endsWith expression ''}'' then
        evaluateComplexExpression vars (butlast (drop 2 expression)) pth errors
      else Some (Fin 0, errors @ [\<lparr>etype = Expression, message = InvalidFormat expression pth, path = pth\<rparr>]))"

text \<open>\<open>NumberOrExpression\<close> and \<open>resolveNumberOrExpression(value, path)\<close>.\<close>

datatype NumberOrExpression = Literal real | Expr string

fun resolveNumberOrExpression ::
  "Variables \<Rightarrow> NumberOrExpression \<Rightarrow> string \<Rightarrow> ParseError list \<Rightarrow> (jsnum \<times> ParseError list) option" where
  "resolveNumberOrExpression vars (Literal x) pth errors = Some (Fin x, errors)"
| "resolveNumberOrExpression vars (Expr e) pth errors = evaluateExpression vars e pth errors"

section \<open>Runtime interpreter\<close>

subsection \<open>Element states and what is handed to a target\<close>

text \<open>
  An \<open>ElementState\<close> is an open object.  The model keeps what the interpreter reads of
  it: the properties whose value is a number or a string (an expression, a colour,
  \<open>'auto'\<close>), by name, and the \<open>boxShadow\<close> property.  A shadow has \<open>x\<close>, \<open>y\<close>, \<open>blur\<close>, the
  optional \<open>spread\<close>, \<open>color\<close> and the optional \<open>inset\<close>, in this order.
\<close>

datatype PropertyValue = NumberValue real | StringValue string

datatype ShadowDefinition =
  Shadow PropertyValue PropertyValue PropertyValue "PropertyValue option" string "bool option"

datatype BoxShadow = OneShadow ShadowDefinition | ShadowArray "ShadowDefinition list"

record ElementState =
  props :: "(string \<times> PropertyValue) list"
  boxShadow :: "BoxShadow option"

text \<open>
  The values of the object handed to a target: a property value copied from the
  state, a text built by a template literal (its fixed parts and the values put into
  it, in order), or the array of a property's keyframe values.
\<close>

datatype Piece = Lit string | Val PropertyValue

datatype MotionValue = Direct PropertyValue | Template "Piece list" | Frames "MotionValue list"

type_synonym TargetValues = "(string \<times> MotionValue) list"

definition copyProperty :: "ElementState \<Rightarrow> string \<Rightarrow> TargetValues" where
  "copyProperty st p = (case map_of (props st) p of None \<Rightarrow> [] | Some v \<Rightarrow> [(p, Direct v)])"

text \<open>\<open>parts.join(sep)\<close> for texts built from pieces.\<close>

fun joinPieces :: "string \<Rightarrow> Piece list list \<Rightarrow> Piece list" where
  "joinPieces sep [] = []"
| "joinPieces sep [p] = p"
| "joinPieces sep (p # q # ps) = p @ [Lit sep] @ joinPieces sep (q # ps)"

definition filterPiece :: "ElementState \<Rightarrow> string \<times> string \<times> string \<Rightarrow> Piece list list" where
  "filterPiece st f =
     (case f of (p, before, after) \<Rightarrow>
        (case map_of (props st) p of
           None \<Rightarrow> []
         | Some v \<Rightarrow> [[Lit before, Val v, Lit after]]))"

fun shadowText :: "ShadowDefinition \<Rightarrow> Piece list" where
  "shadowText (Shadow sx sy sblur sspread scolor sinset) =
     [Lit (if sinset = Some True then ''inset '' else ''''),
      Val sx, Lit ''px '', Val sy, Lit ''px '', Val sblur, Lit ''px '',
      Val (case sspread of None \<Rightarrow> NumberValue 0 | Some v \<Rightarrow> v), Lit ''px '',
      Val (StringValue scolor)]"

text \<open>\<open>convertStateToFramerMotion(state)\<close>: the entries of the result in the order in
  which the function sets them.\<close>

definition convertStateToFramerMotion :: "ElementState \<Rightarrow> TargetValues" where
  "convertStateToFramerMotion st =
     concat (map (copyProperty st)
       [''x'', ''y'', ''opacity'', ''scale'', ''scaleX'', ''scaleY'',
        ''rotate'', ''rotateX'', ''rotateY'', ''rotateZ'', ''skewX'', ''skewY''])
     @ copyProperty st ''z''
     @ (if map_of (props st) ''originX'' \<noteq> None \<or> map_of (props st) ''originY'' \<noteq> None
        then [(''originX'', Direct (case map_of (props st) ''originX'' of
                                      None \<Rightarrow> NumberValue 0.5 | Some v \<Rightarrow> v)),
              (''originY'', Direct (case map_of (props st) ''originY'' of
                                      None \<Rightarrow> NumberValue 0.5 | Some v \<Rightarrow> v))]
        else [])
     @ concat (map (copyProperty st)
       [''backgroundColor'', ''borderColor'', ''color'', ''fill'', ''stroke'',
        ''width'', ''height'', ''borderRadius'', ''borderWidth'',
        ''pathLength'', ''strokeWidth'', ''strokeDasharray'', ''strokeDashoffset''])
     @ (let filters = concat (map (filterPiece st)
          [(''blur'', ''blur('', ''px)''),
           (''brightness'', ''brightness('', '')''),
           (''contrast'', ''contrast('', '')''),
           (''saturate'', ''saturate('', '')''),
           (''hueRotate'', ''hue-rotate('', ''deg)''),
           (''grayscale'', ''grayscale('', '')''),
           (''sepia'', ''sepia('', '')''),
           (''invert'', ''invert('', '')'')])
        in if filters \<noteq> [] then [(''filter'', Template (joinPieces '' '' filters))] else [])
     @ (case boxShadow st of
          None \<Rightarrow> []
        | Some b \<Rightarrow>
            (let shadows = (case b of OneShadow s \<Rightarrow> [s] | ShadowArray ss \<Rightarrow> ss)
             in [(''boxShadow'', Template (joinPieces '', '' (map shadowText shadows)))]))
     @ copyProperty st ''clipPath''"

subsection \<open>Transitions\<close>

text \<open>
  The transition handed to a target: spring physics, a spring given by duration and
  bounce, or a timed transition with its ease and, for keyframes, its times.
\<close>

datatype Ease = CubicBezier real real real real | EaseName string

datatype Transition =
    SpringPhysics real real real "real option" "real option" "real option"
  | SpringTimed real real
  | Timed real "Ease option" "real list option"

definition SPRING_PRESETS :: "SpringPreset \<Rightarrow> real \<times> real \<times> real" where
  "SPRING_PRESETS p =
     (case p of
        Gentle \<Rightarrow> (120, 14, 1)
      | Wobbly \<Rightarrow> (180, 12, 1)
      | Stiff \<Rightarrow> (210, 20, 1)
      | Slow \<Rightarrow> (280, 60, 1)
      | Molasses \<Rightarrow> (280, 120, 1)
      | Bouncy \<Rightarrow> (400, 10, 1))"

definition convertSpringConfig :: "SpringConfig \<Rightarrow> Transition" where
  "convertSpringConfig config =
     (case preset config of
        Some p \<Rightarrow>
          (case SPRING_PRESETS p of (pstiffness, pdamping, pmass) \<Rightarrow>
             SpringPhysics (orDefault (stiffness config) pstiffness)
               (orDefault (damping config) pdamping)
               (orDefault (mass config) pmass)
               (velocity config) (restDelta config) (restSpeed config))
      | None \<Rightarrow>
          (case duration config of
             Some d \<Rightarrow> SpringTimed (d / 1000) (orDefault (bounce config) 0.25)
           | None \<Rightarrow>
               SpringPhysics (orDefault (stiffness config) 100)
                 (orDefault (damping config) 10)
                 (orDefault (mass config) 1)
                 (velocity config) (restDelta config) (restSpeed config)))"

text \<open>
  \<open>EasingDefinition\<close>: a preset name, a cubic bezier, steps, or a spring.  The table
  \<open>EASING_PRESETS\<close> gives four numbers for a preset; the elastic and bounce presets
  have a name there instead and convert to nothing.
\<close>

datatype EasingDefinition =
    EasingPreset string
  | CubicBezierEasing real real real real
  | StepsEasing real
  | SpringEasing SpringConfig

definition EASING_PRESETS :: "(string \<times> Ease) list" where
  "EASING_PRESETS =
     [(''linear'', CubicBezier 0 0 1 1),
      (''ease'', CubicBezier 0.25 0.1 0.25 1),
      (''easeIn'', CubicBezier 0.42 0 1 1),
      (''easeOut'', CubicBezier 0 0 0.58 1),
      (''easeInOut'', CubicBezier 0.42 0 0.58 1),
      (''easeInQuad'', CubicBezier 0.55 0.085 0.68 0.53),
      (''easeOutQuad'', CubicBezier 0.25 0.46 0.45 0.94),
      (''easeInOutQuad'', CubicBezier 0.455 0.03 0.515 0.955),
      (''easeInCubic'', CubicBezier 0.55 0.055 0.675 0.19),
      (''easeOutCubic'', CubicBezier 0.215 0.61 0.355 1),
      (''easeInOutCubic'', CubicBezier 0.645 0.045 0.355 1),
      (''easeInQuart'', CubicBezier 0.895 0.03 0.685 0.22),
      (''easeOutQuart'', CubicBezier 0.165 0.84 0.44 1),
      (''easeInOutQuart'', CubicBezier 0.77 0 0.175 1),
      (''easeInQuint'', CubicBezier 0.755 0.05 0.855 0.06),
      (''easeOutQuint'', CubicBezier 0.23 1 0.32 1),
      (''easeInOutQuint'', CubicBezier 0.86 0 0.07 1),
      (''easeInExpo'', CubicBezier 0.95 0.05 0.795 0.035),
      (''easeOutExpo'', CubicBezier 0.19 1 0.22 1),
      (''easeInOutExpo'', CubicBezier 1 0 0 1),
      (''easeInCirc'', CubicBezier 0.6 0.04 0.98 0.335),
      (''easeOutCirc'', CubicBezier 0.075 0.82 0.165 1),
      (''easeInOutCirc'', CubicBezier 0.785 0.135 0.15 0.86),
      (''easeInBack'', CubicBezier 0.6 (- 0.28) 0.735 0.045),
      (''easeOutBack'', CubicBezier 0.175 0.885 0.32 1.275),
      (''easeInOutBack'', CubicBezier 0.68 (- 0.55) 0.265 1.55),
      (''easeInElastic'', EaseName ''easeInElastic''),
      (''easeOutElastic'', EaseName ''easeOutElastic''),
      (''easeInOutElastic'', EaseName ''easeInOutElastic''),
      (''easeInBounce'', EaseName ''easeInBounce''),
      (''easeOutBounce'', EaseName ''easeOutBounce''),
      (''easeInOutBounce'', EaseName ''easeInOutBounce'')]"

definition convertEasing :: "EasingDefinition option \<Rightarrow> Ease option" where
  "convertEasing easing =
     (case easing of
        None \<Rightarrow> None
      | Some (EasingPreset name) \<Rightarrow>
          (case map_of EASING_PRESETS name of
             Some (CubicBezier a b c d) \<Rightarrow> Some (CubicBezier a b c d)
           | _ \<Rightarrow> None)
      | Some (CubicBezierEasing a b c d) \<Rightarrow> Some (CubicBezier a b c d)
      | Some (StepsEasing n) \<Rightarrow> Some (CubicBezier 0 0 1 1)
      | Some (SpringEasing config) \<Rightarrow> None)"

subsection \<open>Animation blocks\<close>

text \<open>
  The fields that \<open>executeAnimationBlock\<close> reads of every block: \<open>offset\<close>, \<open>delay\<close> and
  \<open>stagger\<close>, each of which may be absent.  A block then carries what its handler
  reads: the target or targets, the state \<open>to\<close>, the spring or the duration and easing,
  the keyframes with their \<open>at\<close> and \<open>state\<close>, the mode and the children of a group.
  Match cut and drag blocks have no handler.
\<close>

record BlockBase =
  block_offset :: "real option"
  block_delay :: "real option"
  block_stagger :: "StaggerDefinition option"

datatype Target = OneTarget string | TargetArray "string list"

datatype Mode = Parallel | Sequence

datatype AnimationBlock =
    SpringBlock BlockBase Target ElementState SpringConfig
  | TransitionBlock BlockBase Target ElementState "real option" "EasingDefinition option"
  | KeyframesBlock BlockBase Target "(real \<times> ElementState) list" "real option"
      "EasingDefinition option"
  | GroupBlock BlockBase Mode "AnimationBlock list"
  | MorphBlock BlockBase string string "real option" "EasingDefinition option"
  | ParticlesBlock BlockBase "real option"
  | TextBlock BlockBase "real option"
  | MatchCutBlock BlockBase
  | DragBlock BlockBase

fun baseOf :: "AnimationBlock \<Rightarrow> BlockBase" where
  "baseOf (SpringBlock b t st sp) = b"
| "baseOf (TransitionBlock b t st d e) = b"
| "baseOf (KeyframesBlock b t ks d e) = b"
| "baseOf (GroupBlock b m bs) = b"
| "baseOf (MorphBlock b t p d e) = b"
| "baseOf (ParticlesBlock b d) = b"
| "baseOf (TextBlock b d) = b"
| "baseOf (MatchCutBlock b) = b"
| "baseOf (DragBlock b) = b"

fun typeOf :: "AnimationBlock \<Rightarrow> string" where
  "typeOf (SpringBlock b t st sp) = ''spring''"
| "typeOf (TransitionBlock b t st d e) = ''transition''"
| "typeOf (KeyframesBlock b t ks d e) = ''keyframes''"
| "typeOf (GroupBlock b m bs) = ''group''"
| "typeOf (MorphBlock b t p d e) = ''morph''"
| "typeOf (ParticlesBlock b d) = ''particles''"
| "typeOf (TextBlock b d) = ''text''"
| "typeOf (MatchCutBlock b) = ''matchCut''"
| "typeOf (DragBlock b) = ''drag''"

text \<open>\<open>Array.isArray(block.target) ? block.target : [block.target]\<close>.\<close>

fun targetsOf :: "Target \<Rightarrow> string list" where
  "targetsOf (OneTarget t) = [t]"
| "targetsOf (TargetArray ts) = ts"

subsection \<open>The interpreter and its effects\<close>

text \<open>
  What a run does to the outside: it calls \<open>start\<close> or \<open>set\<close> of a registered handle,
  writes a warning, or emits an event to the subscribed handlers.  A handle is owned
  by the host; the model knows of it how long the promise returned by \<open>start\<close> takes
  to resolve.  Handle operations and event handlers are taken not to throw and not to
  call back into the interpreter.
\<close>

datatype InterpreterState = Idle | Playing | Paused | Stopped

datatype InterpreterEvent =
    StateChange InterpreterState
  | SequenceStart "string option"
  | SequenceEnd "string option"
  | AnimationStart string
  | AnimationEnd string

datatype Effect =
    Start string TargetValues Transition
  | SetValues string TargetValues
  | Warn string
  | Emit InterpreterEvent

datatype AnimationControls = Controls "TargetValues \<Rightarrow> Transition \<Rightarrow> real"

fun startTakes :: "AnimationControls \<Rightarrow> TargetValues \<Rightarrow> Transition \<Rightarrow> real" where
  "startTakes (Controls f) target transition = f target transition"

datatype RepeatCount = Count real | Infinite

record RepeatDefinition =
  repeat_count :: RepeatCount
  repeat_delay :: "real option"

datatype TriggerDefinition = Mount "real option" | OtherTrigger string

record SequenceDefinition =
  sequence_id :: "string option"
  trigger :: TriggerDefinition
  animations :: "AnimationBlock list"
  repeat :: "RepeatDefinition option"

text \<open>
  The interpreter: of the document it reads the elements (identifier and initial
  state, in the order of the object) and the sequences; \<open>timeouts\<close> holds the
  identifiers of the timers that \<open>delay\<close> has set.
\<close>

record Interpreter =
  elements :: "(string \<times> ElementState) list"
  sequences :: "SequenceDefinition list"
  controls :: "string \<rightharpoonup> AnimationControls"
  state :: InterpreterState
  activeSequences :: "string set"
  abortController :: "bool option"
  timeouts :: "nat set"

subsection \<open>Time and effects of a computation\<close>

text \<open>
  An asynchronous computation is modelled by the time after which its promise
  resolves and the effects it has, each with the time at which it happens, both
  counted from the start of the computation.  Time passes in timers and in the
  handles' \<open>start\<close>; everything else takes no time.  A timer set for \<open>ms\<close> fires after
  \<open>ms\<close> milliseconds, at once if \<open>ms\<close> is negative.  While a block or a sequence runs,
  the host calls no other operation of the interpreter, so \<open>state\<close> and the registered
  handles stay as they are.
\<close>

record Outcome =
  elapsed :: real
  effects :: "(real \<times> Effect) list"

definition immediately :: Outcome where
  "immediately = \<lparr>elapsed = 0, effects = []\<rparr>"

definition effect :: "Effect \<Rightarrow> Outcome" where
  "effect e = \<lparr>elapsed = 0, effects = [(0, e)]\<rparr>"

text \<open>\<open>await a; b\<close>: the second computation starts when the first has finished.\<close>

definition andThen :: "Outcome \<Rightarrow> Outcome \<Rightarrow> Outcome" where
  "andThen a b =
     \<lparr>elapsed = elapsed a + elapsed b,
      effects = effects a @ map (\<lambda>(t, e). (elapsed a + t, e)) (effects b)\<rparr>"

text \<open>\<open>Promise.all\<close> of computations started together: finished when the last is.\<close>

definition allOf :: "Outcome list \<Rightarrow> Outcome" where
  "allOf outcomes =
     \<lparr>elapsed = (case outcomes of [] \<Rightarrow> 0 | a # rest \<Rightarrow> foldl max (elapsed a) (map elapsed rest)),
      effects = concat (map effects outcomes)\<rparr>"

text \<open>\<open>this.delay(ms)\<close>.\<close>

definition delay :: "real \<Rightarrow> Outcome" where
  "delay ms = \<lparr>elapsed = max 0 ms, effects = []\<rparr>"

text \<open>\<open>if (value) await this.delay(value)\<close> for an optional number: absent and zero are
  falsy.\<close>

definition delayIfSet :: "real option \<Rightarrow> Outcome" where
  "delayIfSet v = (case v of None \<Rightarrow> immediately | Some ms \<Rightarrow> if ms \<noteq> 0 then delay ms else immediately)"

subsection \<open>Handlers of the block kinds\<close>

text \<open>
  The fan-out shared by \<open>executeSpring\<close>, \<open>executeTransition\<close> and \<open>executeKeyframes\<close>:
  for every target a promise, all awaited together.  A target without a handle gets a
  warning and a resolved promise; the others wait their stagger delay and start.
\<close>

definition startTarget ::
  "Interpreter \<Rightarrow> StaggerDefinition option \<Rightarrow> nat \<Rightarrow> TargetValues \<Rightarrow> Transition
     \<Rightarrow> nat \<times> string \<Rightarrow> Outcome" where
  "startTarget interp stagger n target transition it =
     (case it of (index, targetId) \<Rightarrow>
        (case controls interp targetId of
           None \<Rightarrow> effect (Warn (''No control registered for element: '' @ targetId))
         | Some control \<Rightarrow>
             (let staggerDelay =
                    (case stagger of
                       Some s \<Rightarrow> calculateStaggerDelay (real index) (real n) s
                     | None \<Rightarrow> 0)
              in andThen (delay staggerDelay)
                   \<lparr>elapsed = startTakes control target transition,
                    effects = [(0, Start targetId target transition)]\<rparr>)))"

definition startAll ::
  "Interpreter \<Rightarrow> StaggerDefinition option \<Rightarrow> string list \<Rightarrow> TargetValues \<Rightarrow> Transition
     \<Rightarrow> Outcome" where
  "startAll interp stagger targets target transition =
     allOf (map (startTarget interp stagger (length targets) target transition)
              (enumerate 0 targets))"

definition executeSpring ::
  "Interpreter \<Rightarrow> BlockBase \<Rightarrow> Target \<Rightarrow> ElementState \<Rightarrow> SpringConfig \<Rightarrow> Outcome" where
  "executeSpring interp base target to spring =
     startAll interp (block_stagger base) (targetsOf target)
       (convertStateToFramerMotion to) (convertSpringConfig spring)"

definition executeTransition ::
  "Interpreter \<Rightarrow> BlockBase \<Rightarrow> Target \<Rightarrow> ElementState \<Rightarrow> real option
     \<Rightarrow> EasingDefinition option \<Rightarrow> Outcome" where
  "executeTransition interp base target to dur easing =
     (let ease = convertEasing easing;
          transition = Timed (orDefault dur 300 / 1000)
                         (Some (orDefault ease (CubicBezier 0.25 0.1 0.25 1))) None
      in startAll interp (block_stagger base) (targetsOf target)
           (convertStateToFramerMotion to) transition)"

text \<open>The arrays of keyframe values by property, in the order in which the
  properties are first seen.\<close>

fun pushFrame ::
  "(string \<times> MotionValue list) list \<Rightarrow> string \<times> MotionValue \<Rightarrow> (string \<times> MotionValue list) list" where
  "pushFrame [] (p, v) = [(p, [v])]"
| "pushFrame ((q, vs) # rest) (p, v) =
     (if q = p then (q, vs @ [v]) # rest else (q, vs) # pushFrame rest (p, v))"

definition keyframeProperties :: "(real \<times> ElementState) list \<Rightarrow> TargetValues" where
  "keyframeProperties keyframes =
     map (\<lambda>(p, vs). (p, Frames vs))
       (foldl (\<lambda>acc kf. foldl pushFrame acc (convertStateToFramerMotion (snd kf))) [] keyframes)"

definition executeKeyframes ::
  "Interpreter \<Rightarrow> BlockBase \<Rightarrow> Target \<Rightarrow> (real \<times> ElementState) list \<Rightarrow> real option
     \<Rightarrow> EasingDefinition option \<Rightarrow> Outcome" where
  "executeKeyframes interp base target keyframes dur easing =
     (let times = map (\<lambda>kf. fst kf / 100) keyframes;
          ease = convertEasing easing;
          transition = Timed (orDefault dur 1000 / 1000)
                         (Some (orDefault ease (EaseName ''linear''))) (Some times)
      in startAll interp (block_stagger base) (targetsOf target)
           (keyframeProperties keyframes) transition)"

definition executeMorph ::
  "Interpreter \<Rightarrow> string \<Rightarrow> string \<Rightarrow> real option \<Rightarrow> EasingDefinition option \<Rightarrow> Outcome" where
  "executeMorph interp target to dur easing =
     (case controls interp target of
        None \<Rightarrow> effect (Warn (''No control registered for element: '' @ target))
      | Some control \<Rightarrow>
          (let ease = convertEasing easing;
               values = [(''d'', Direct (StringValue to))];
               transition = Timed (orDefault dur 500 / 1000)
                              (Some (orDefault ease (CubicBezier 0.25 0.1 0.25 1))) None
           in \<lparr>elapsed = startTakes control values transition,
               effects = [(0, Start target values transition)]\<rparr>))"

definition executeParticles :: "real option \<Rightarrow> Outcome" where
  "executeParticles dur = delayIfSet dur"

definition executeText :: "real option \<Rightarrow> Outcome" where
  "executeText dur = delayIfSet dur"

subsection \<open>Blocks, groups and sequences\<close>

text \<open>
  What \<open>executeAnimationBlock\<close> does around the handler of a block: nothing at all when
  the interpreter is stopped; otherwise the offset, the delay, the start event, the
  handler and the end event.
\<close>

definition aroundBlock :: "Interpreter \<Rightarrow> BlockBase \<Rightarrow> string \<Rightarrow> Outcome \<Rightarrow> Outcome" where
  "aroundBlock interp base kind handler =
     (if state interp = Stopped then immediately
      else andThen (delayIfSet (block_offset base))
             (andThen (delayIfSet (block_delay base))
                (andThen (effect (Emit (AnimationStart kind)))
                   (andThen handler (effect (Emit (AnimationEnd kind)))))))"

text \<open>
  \<open>executeAnimationBlock\<close> and \<open>executeGroup\<close>.  A parallel group starts all children and
  awaits them together (\<open>executeEach\<close> gives the children's computations); a sequential
  group awaits one child after the other and, when the group has a stagger, waits
  \<open>stagger.each\<close> after every child (\<open>executeInTurn\<close>).
\<close>

fun executeAnimationBlock :: "Interpreter \<Rightarrow> AnimationBlock \<Rightarrow> Outcome"
  and executeGroup :: "Interpreter \<Rightarrow> BlockBase \<Rightarrow> Mode \<Rightarrow> AnimationBlock list \<Rightarrow> Outcome"
  and executeEach :: "Interpreter \<Rightarrow> AnimationBlock list \<Rightarrow> Outcome list"
  and executeInTurn :: "Interpreter \<Rightarrow> StaggerDefinition option \<Rightarrow> AnimationBlock list \<Rightarrow> Outcome"
where
  "executeAnimationBlock interp (SpringBlock base target to spring) =
     aroundBlock interp base ''spring'' (executeSpring interp base target to spring)"
| "executeAnimationBlock interp (TransitionBlock base target to dur easing) =
     aroundBlock interp base ''transition'' (executeTransition interp base target to dur easing)"
| "executeAnimationBlock interp (KeyframesBlock base target keyframes dur easing) =
     aroundBlock interp base ''keyframes''
       (executeKeyframes interp base target keyframes dur easing)"
| "executeAnimationBlock interp (GroupBlock base mode children) =
     aroundBlock interp base ''group'' (executeGroup interp base mode children)"
| "executeAnimationBlock interp (MorphBlock base target to dur easing) =
     aroundBlock interp base ''morph'' (executeMorph interp target to dur easing)"
| "executeAnimationBlock interp (ParticlesBlock base dur) =
     aroundBlock interp base ''particles'' (executeParticles dur)"
| "executeAnimationBlock interp (TextBlock base dur) =
     aroundBlock interp base ''text'' (executeText dur)"
| "executeAnimationBlock interp (MatchCutBlock base) =
     aroundBlock interp base ''matchCut'' (effect (Warn ''Unknown animation type: matchCut''))"
| "executeAnimationBlock interp (DragBlock base) =
     aroundBlock interp base ''drag'' (effect (Warn ''Unknown animation type: drag''))"
| "executeGroup interp base Parallel children = allOf (executeEach interp children)"
| "executeGroup interp base Sequence children = executeInTurn interp (block_stagger base) children"
| "executeEach interp [] = []"
| "executeEach interp (child # children) =
     executeAnimationBlock interp child # executeEach interp children"
| "executeInTurn interp stagger [] = immediately"
| "executeInTurn interp stagger (child # children) =
     andThen (executeAnimationBlock interp child)
       (andThen (case stagger of Some s \<Rightarrow> delay (each s) | None \<Rightarrow> immediately)
          (executeInTurn interp stagger children))"

text \<open>\<open>runAnimations\<close> of \<open>executeSequence\<close>: the blocks one after the other, none when
  the interpreter is stopped.\<close>

fun runAnimations :: "Interpreter \<Rightarrow> AnimationBlock list \<Rightarrow> Outcome" where
  "runAnimations interp [] = immediately"
| "runAnimations interp (block # blocks) =
     (if state interp = Stopped then immediately
      else andThen (executeAnimationBlock interp block) (runAnimations interp blocks))"

text \<open>
  The repeat loop of \<open>executeSequence\<close>:
  \<open>while (iteration < count && this.state !== 'stopped')\<close>, each round being
  \<open>runAnimations\<close> and the repeat delay.  With the count \<open>'infinite'\<close> the loop does not
  end by itself; a run that never finishes has no outcome (\<open>None\<close>).
\<close>

fun belowCount :: "nat \<Rightarrow> RepeatCount \<Rightarrow> bool" where
  "belowCount iteration (Count c) = (real iteration < c)"
| "belowCount iteration Infinite = True"

partial_function (option) repeatLoop ::
  "Interpreter \<Rightarrow> RepeatCount \<Rightarrow> Outcome \<Rightarrow> nat \<Rightarrow> Outcome \<Rightarrow> Outcome option" where
  "repeatLoop interp count body iteration sofar =
     (if belowCount iteration count \<and> state interp \<noteq> Stopped
      then repeatLoop interp count body (iteration + 1) (andThen sofar body)
      else Some sofar)"

definition sequenceIsActive :: "Interpreter \<Rightarrow> string option \<Rightarrow> bool" where
  "sequenceIsActive interp sid =
     (case sid of None \<Rightarrow> False | Some i \<Rightarrow> i \<noteq> [] \<and> i \<in> activeSequences interp)"

text \<open>
  \<open>executeSequence(sequence)\<close>.  A sequence without an identifier (or with the empty
  one) runs under a fresh random identifier, which is never among the active ones.
  The identifier is among the active ones for the time of the run.
\<close>

definition executeSequence :: "Interpreter \<Rightarrow> SequenceDefinition \<Rightarrow> Outcome option" where
  "executeSequence interp sequence =
     (if sequenceIsActive interp (sequence_id sequence) then Some immediately
      else
        (let opening = andThen (effect (Emit (SequenceStart (sequence_id sequence))))
                       (case trigger sequence of
                          Mount d \<Rightarrow> delayIfSet d
                        | OtherTrigger t \<Rightarrow> immediately);
             closing = effect (Emit (SequenceEnd (sequence_id sequence)))
         in case repeat sequence of
              Some r \<Rightarrow>
                (case repeatLoop interp (repeat_count r)
                        (andThen (runAnimations interp (animations sequence))
                           (delayIfSet (repeat_delay r)))
                        0 opening of
                   None \<Rightarrow> None
                 | Some rounds \<Rightarrow> Some (andThen rounds closing))
            | None \<Rightarrow>
                Some (andThen opening
                        (andThen (runAnimations interp (animations sequence)) closing))))"

subsection \<open>Timers, pause and stop\<close>

text \<open>
  The host keeps the pending timers.  \<open>delay\<close> sets two: one that resolves the wait
  after \<open>ms\<close> and is recorded in \<open>timeouts\<close>, and one that takes the first out of
  \<open>timeouts\<close> after \<open>ms + 1\<close>.  Timer identifiers are never used twice.
\<close>

datatype TimerAction = ResolveDelay | ForgetTimeout nat

record Host =
  pending :: "nat \<rightharpoonup> TimerAction"
  nextTimer :: nat






text \<open>The part of \<open>play()\<close> before the mount sequences start.\<close>

definition play :: "Interpreter \<Rightarrow> Interpreter \<times> Effect list" where
  "play interp =
     (if state interp = Playing then (interp, [])
      else (interp\<lparr>state := Playing, abortController := Some False\<rparr>,
            [Emit (StateChange Playing)]))"

definition registerControl :: "Interpreter \<Rightarrow> string \<Rightarrow> AnimationControls \<Rightarrow> Interpreter" where
  "registerControl interp elementId control =
     interp\<lparr>controls := (controls interp)(elementId \<mapsto> control)\<rparr>"


text \<open>The interpreter as constructed, and a host with no timer set.\<close>

definition createInterpreter ::
  "(string \<times> ElementState) list \<Rightarrow> SequenceDefinition list \<Rightarrow> Interpreter" where
  "createInterpreter els seqs =
     \<lparr>elements = els, sequences = seqs, controls = Map.empty, state = Idle,
      activeSequences = {}, abortController = None, timeouts = {}\<rparr>"




subsection \<open>Reading an outcome\<close>

text \<open>The calls of handle operations among the effects, in order, and the time that
  \<open>if (value) await this.delay(value)\<close> takes.\<close>

fun isHandleCall :: "Effect \<Rightarrow> bool" where
  "isHandleCall (Start elementId target transition) = True"
| "isHandleCall (SetValues elementId target) = True"
| "isHandleCall (Warn text) = False"
| "isHandleCall (Emit event) = False"

definition handleCalls :: "Outcome \<Rightarrow> Effect list" where
  "handleCalls outcome = filter isHandleCall (map snd (effects outcome))"

definition waited :: "real option \<Rightarrow> real" where
  "waited v = (case v of None \<Rightarrow> 0 | Some ms \<Rightarrow> max 0 ms)"

subsection \<open>A small document\<close>

text \<open>
  An interpreter for a document with the one element \<open>box\<close>, whose handle is registered
  and takes 300 milliseconds for every \<open>start\<close>; \<open>play\<close> has been called.  The element
  \<open>card\<close> has no handle.
\<close>

definition plainBlock :: BlockBase where
  "plainBlock = \<lparr>block_offset = None, block_delay = None, block_stagger = None\<rparr>"

definition boxInitial :: ElementState where
  "boxInitial = \<lparr>props = [(''x'', NumberValue 0), (''opacity'', NumberValue 1)], boxShadow = None\<rparr>"

definition boxMoved :: ElementState where
  "boxMoved = \<lparr>props = [(''x'', NumberValue 100)], boxShadow = None\<rparr>"

definition boxControl :: AnimationControls where
  "boxControl = Controls (\<lambda>target transition. 300)"

definition boxInterpreter :: Interpreter where
  "boxInterpreter =
     fst (play (registerControl (createInterpreter [(''box'', boxInitial)] []) ''box'' boxControl))"


text \<open>A sequence that repeats without end a spring on \<open>card\<close> and \<open>box\<close>.\<close>

definition endlessSequence :: SequenceDefinition where
  "endlessSequence =
     \<lparr>sequence_id = Some ''pulse'', trigger = Mount None,
      animations = [SpringBlock plainBlock (TargetArray [''card'', ''box'']) boxMoved bouncySpring],
      repeat = Some \<lparr>repeat_count = Infinite, repeat_delay = None\<rparr>\<rparr>"

text \<open>The spring of that sequence, and the sequence without a repeat and with two
  rounds.\<close>

definition cardAndBox :: AnimationBlock where
  "cardAndBox = SpringBlock plainBlock (TargetArray [''card'', ''box'']) boxMoved bouncySpring"

definition pulseOnce :: SequenceDefinition where
  "pulseOnce = endlessSequence\<lparr>repeat := None\<rparr>"

definition pulseTwice :: SequenceDefinition where
  "pulseTwice = endlessSequence\<lparr>repeat := Some \<lparr>repeat_count = Count 2, repeat_delay = None\<rparr>\<rparr>"

text \<open>Three placeholder blocks of 100, 200 and 300 milliseconds, and a group base with
  a stagger of 50 milliseconds.\<close>

definition threeWaits :: "AnimationBlock list" where
  "threeWaits =
     [ParticlesBlock plainBlock (Some 100), TextBlock plainBlock (Some 200),
      ParticlesBlock plainBlock (Some 300)]"

definition staggeredGroup :: BlockBase where
  "staggeredGroup =
     \<lparr>block_offset = None, block_delay = None,
      block_stagger = Some \<lparr>each = 50, origin = None\<rparr>\<rparr>"

subsection \<open>Pending waits\<close>



section \<open>The validator\<close>

text \<open>
  \<open>validateDSL\<close> hands the input to \<open>KineticAnimationSchema.safeParse\<close>.  The schema is
  written with the combinators of the zod library; the library is what decides, so the
  model has two layers: the combinators with the way the library parses a JSON value
  against them, and the schema of the program written with them, declaration by
  declaration.
\<close>

subsection \<open>JSON values\<close>

text \<open>
  The input is a JSON document: null, a boolean, a finite number, a string, an array
  or an object, whose entries are kept in order.  A key that is absent reads as
  \<open>undefined\<close>, which is \<open>None\<close> where a value may be missing.
\<close>

datatype json =
    JsonNull
  | JsonBool bool
  | JsonNumber real
  | JsonString string
  | JsonArray "json list"
  | JsonObject "(string \<times> json) list"

subsection \<open>Schemas\<close>

text \<open>
  The combinators the program uses.  A number schema carries its checks (\<open>int\<close>,
  \<open>positive\<close>, \<open>min\<close>, ...) as one predicate, a string schema with \<open>regex\<close> the test of
  the expression, an array schema its least length.  An object schema drops the keys
  that it does not declare (\<open>Strip\<close>) or keeps them as they are (\<open>Passthrough\<close>).
  \<open>ZLazy\<close> is \<open>z.lazy\<close> of the one recursive schema of the program, the animation block.
\<close>

datatype unknownKeys = Strip | Passthrough

datatype schema =
    ZString
  | ZRegex "string \<Rightarrow> bool"
  | ZNumber "real \<Rightarrow> bool"
  | ZBoolean
  | ZLiteral string
  | ZEnum "string list"
  | ZUnknown
  | ZArray schema nat
  | ZTuple "schema list"
  | ZRecord schema
  | ZObject unknownKeys "(string \<times> schema) list"
  | ZOptional schema
  | ZDefault schema json
  | ZUnion "schema list"
  | ZDiscriminatedUnion string "schema list"
  | ZRefine schema "json \<Rightarrow> bool"
  | ZLazy

abbreviation z_string :: schema where "z_string \<equiv> ZString"
abbreviation z_number :: schema where "z_number \<equiv> ZNumber (\<lambda>x. True)"
abbreviation z_boolean :: schema where "z_boolean \<equiv> ZBoolean"
abbreviation z_unknown :: schema where "z_unknown \<equiv> ZUnknown"
abbreviation z_literal :: "string \<Rightarrow> schema" where "z_literal \<equiv> ZLiteral"
abbreviation z_enum :: "string list \<Rightarrow> schema" where "z_enum \<equiv> ZEnum"
abbreviation z_array :: "schema \<Rightarrow> schema" where "z_array s \<equiv> ZArray s 0"
abbreviation z_tuple :: "schema list \<Rightarrow> schema" where "z_tuple \<equiv> ZTuple"
abbreviation z_record :: "schema \<Rightarrow> schema" where "z_record \<equiv> ZRecord"
abbreviation z_object :: "(string \<times> schema) list \<Rightarrow> schema" where "z_object \<equiv> ZObject Strip"
abbreviation z_union :: "schema list \<Rightarrow> schema" where "z_union \<equiv> ZUnion"
abbreviation z_discriminatedUnion :: "string \<Rightarrow> schema list \<Rightarrow> schema" where
  "z_discriminatedUnion \<equiv> ZDiscriminatedUnion"
abbreviation optional :: "schema \<Rightarrow> schema" where "optional \<equiv> ZOptional"
abbreviation z_default :: "schema \<Rightarrow> json \<Rightarrow> schema" where "z_default \<equiv> ZDefault"
abbreviation refine :: "schema \<Rightarrow> (json \<Rightarrow> bool) \<Rightarrow> schema" where "refine \<equiv> ZRefine"

text \<open>The checks of a number schema, each added to the ones already there.\<close>

fun z_check :: "(real \<Rightarrow> bool) \<Rightarrow> schema \<Rightarrow> schema" where
  "z_check c (ZNumber f) = ZNumber (\<lambda>x. f x \<and> c x)"
| "z_check c s = s"

definition z_int :: "schema \<Rightarrow> schema" where
  "z_int = z_check (\<lambda>x. x = of_int \<lfloor>x\<rfloor>)"

definition z_positive :: "schema \<Rightarrow> schema" where
  "z_positive = z_check (\<lambda>x. 0 < x)"

definition z_nonnegative :: "schema \<Rightarrow> schema" where
  "z_nonnegative = z_check (\<lambda>x. 0 \<le> x)"

definition z_min :: "real \<Rightarrow> schema \<Rightarrow> schema" where
  "z_min k = z_check (\<lambda>x. k \<le> x)"

definition z_max :: "real \<Rightarrow> schema \<Rightarrow> schema" where
  "z_max k = z_check (\<lambda>x. x \<le> k)"

text \<open>\<open>.min(n)\<close> of an array schema.\<close>

fun min_items :: "nat \<Rightarrow> schema \<Rightarrow> schema" where
  "min_items n (ZArray s m) = ZArray s n"
| "min_items n s = s"

text \<open>
  \<open>.passthrough()\<close>, \<open>.partial()\<close> and \<open>.extend(shape)\<close> of an object schema:
  \<open>partial\<close> makes every declared key optional, \<open>extend\<close> replaces the declared keys
  that the new shape names and adds the others after them; both keep the treatment of
  unknown keys.
\<close>

fun passthrough :: "schema \<Rightarrow> schema" where
  "passthrough (ZObject u shape) = ZObject Passthrough shape"
| "passthrough s = s"

fun partial :: "schema \<Rightarrow> schema" where
  "partial (ZObject u shape) = ZObject u (map (\<lambda>(k, s). (k, ZOptional s)) shape)"
| "partial s = s"

fun extend :: "schema \<Rightarrow> (string \<times> schema) list \<Rightarrow> schema" where
  "extend (ZObject u shape) augmentation =
     ZObject u (map (\<lambda>(k, s). (k, case map_of augmentation k of Some s' \<Rightarrow> s' | None \<Rightarrow> s)) shape
                @ filter (\<lambda>(k, s). k \<notin> set (map fst shape)) augmentation)"
| "extend s augmentation = s"

subsection \<open>The schema of the document\<close>

definition NumberOrExpressionSchema :: schema where
  "NumberOrExpressionSchema = z_union [z_number, ZRegex isExpression]"

definition ColorValueSchema :: schema where
  "ColorValueSchema = z_string"

definition EasingPresetSchema :: schema where
  "EasingPresetSchema = z_enum
     [''linear'', ''ease'', ''easeIn'', ''easeOut'', ''easeInOut'',
      ''easeInQuad'', ''easeOutQuad'', ''easeInOutQuad'',
      ''easeInCubic'', ''easeOutCubic'', ''easeInOutCubic'',
      ''easeInQuart'', ''easeOutQuart'', ''easeInOutQuart'',
      ''easeInQuint'', ''easeOutQuint'', ''easeInOutQuint'',
      ''easeInExpo'', ''easeOutExpo'', ''easeInOutExpo'',
      ''easeInCirc'', ''easeOutCirc'', ''easeInOutCirc'',
      ''easeInBack'', ''easeOutBack'', ''easeInOutBack'',
      ''easeInElastic'', ''easeOutElastic'', ''easeInOutElastic'',
      ''easeInBounce'', ''easeOutBounce'', ''easeInOutBounce'']"

definition CubicBezierEasingSchema :: schema where
  "CubicBezierEasingSchema = z_object
     [(''type'', z_literal ''cubicBezier''),
      (''values'', z_tuple [z_number, z_number, z_number, z_number])]"

definition StepsEasingSchema :: schema where
  "StepsEasingSchema = z_object
     [(''type'', z_literal ''steps''),
      (''count'', z_positive (z_int z_number)),
      (''position'', optional (z_enum [''start'', ''end'', ''both'', ''none'']))]"

definition SpringPresetSchema :: schema where
  "SpringPresetSchema = z_enum [''gentle'', ''wobbly'', ''stiff'', ''slow'', ''molasses'', ''bouncy'']"

text \<open>
  The refinement of the spring configuration,
  \<open>data.preset !== undefined || data.stiffness !== undefined || data.duration !== undefined\<close>,
  on the parsed object.
\<close>

fun hasKey :: "string \<Rightarrow> json \<Rightarrow> bool" where
  "hasKey k (JsonObject kvs) = (map_of kvs k \<noteq> None)"
| "hasKey k v = False"

definition SpringConfigSchema :: schema where
  "SpringConfigSchema = refine
     (z_object
        [(''stiffness'', optional z_number),
         (''damping'', optional z_number),
         (''mass'', optional z_number),
         (''velocity'', optional z_number),
         (''restDelta'', optional z_number),
         (''restSpeed'', optional z_number),
         (''preset'', optional SpringPresetSchema),
         (''duration'', optional z_number),
         (''bounce'', optional (z_max 1 (z_min 0 z_number)))])
     (\<lambda>data. hasKey ''preset'' data \<or> hasKey ''stiffness'' data \<or> hasKey ''duration'' data)"

definition SpringEasingSchema :: schema where
  "SpringEasingSchema = z_object
     [(''type'', z_literal ''spring''),
      (''config'', SpringConfigSchema)]"

definition EasingDefinitionSchema :: schema where
  "EasingDefinitionSchema = z_union
     [EasingPresetSchema, CubicBezierEasingSchema, StepsEasingSchema, SpringEasingSchema]"

definition StaggerDefinitionSchema :: schema where
  "StaggerDefinitionSchema = z_object
     [(''each'', z_number),
      (''from'', optional (z_union
         [z_enum [''first'', ''last'', ''center'', ''edges''],
          z_nonnegative (z_int z_number)])),
      (''grid'', optional (z_tuple [z_positive (z_int z_number), z_positive (z_int z_number)])),
      (''axis'', optional (z_enum [''x'', ''y''])),
      (''ease'', optional EasingDefinitionSchema)]"

definition RepeatDefinitionSchema :: schema where
  "RepeatDefinitionSchema = z_object
     [(''count'', z_union [z_positive (z_int z_number), z_literal ''infinite'']),
      (''delay'', optional z_number),
      (''behavior'', optional (z_enum [''loop'', ''reverse'']))]"

definition ShadowDefinitionSchema :: schema where
  "ShadowDefinitionSchema = z_object
     [(''x'', NumberOrExpressionSchema),
      (''y'', NumberOrExpressionSchema),
      (''blur'', NumberOrExpressionSchema),
      (''spread'', optional NumberOrExpressionSchema),
      (''color'', ColorValueSchema),
      (''inset'', optional z_boolean)]"

definition ElementStateSchema :: schema where
  "ElementStateSchema = passthrough (z_object
     [(''x'', optional NumberOrExpressionSchema),
      (''y'', optional NumberOrExpressionSchema),
      (''z'', optional NumberOrExpressionSchema),
      (''scaleX'', optional NumberOrExpressionSchema),
      (''scaleY'', optional NumberOrExpressionSchema),
      (''scale'', optional NumberOrExpressionSchema),
      (''rotateX'', optional NumberOrExpressionSchema),
      (''rotateY'', optional NumberOrExpressionSchema),
      (''rotateZ'', optional NumberOrExpressionSchema),
      (''rotate'', optional NumberOrExpressionSchema),
      (''skewX'', optional NumberOrExpressionSchema),
      (''skewY'', optional NumberOrExpressionSchema),
      (''originX'', optional NumberOrExpressionSchema),
      (''originY'', optional NumberOrExpressionSchema),
      (''opacity'', optional NumberOrExpressionSchema),
      (''backgroundColor'', optional ColorValueSchema),
      (''borderColor'', optional ColorValueSchema),
      (''color'', optional ColorValueSchema),
      (''fill'', optional ColorValueSchema),
      (''stroke'', optional ColorValueSchema),
      (''width'', optional (z_union [NumberOrExpressionSchema, z_literal ''auto''])),
      (''height'', optional (z_union [NumberOrExpressionSchema, z_literal ''auto''])),
      (''borderRadius'', optional (z_union [NumberOrExpressionSchema, z_string])),
      (''borderWidth'', optional NumberOrExpressionSchema),
      (''strokeWidth'', optional NumberOrExpressionSchema),
      (''strokeDasharray'', optional z_string),
      (''strokeDashoffset'', optional NumberOrExpressionSchema),
      (''pathLength'', optional NumberOrExpressionSchema),
      (''blur'', optional NumberOrExpressionSchema),
      (''brightness'', optional NumberOrExpressionSchema),
      (''contrast'', optional NumberOrExpressionSchema),
      (''saturate'', optional NumberOrExpressionSchema),
      (''hueRotate'', optional NumberOrExpressionSchema),
      (''grayscale'', optional NumberOrExpressionSchema),
      (''sepia'', optional NumberOrExpressionSchema),
      (''invert'', optional NumberOrExpressionSchema),
      (''boxShadow'', optional (z_union [ShadowDefinitionSchema, z_array ShadowDefinitionSchema])),
      (''pathMotion'', optional (passthrough (z_object
         [(''path'', z_string),
          (''progress'', NumberOrExpressionSchema),
          (''autoRotate'', optional z_boolean),
          (''offset'', optional NumberOrExpressionSchema)]))),
      (''clipPath'', optional z_string),
      (''perspective'', optional NumberOrExpressionSchema),
      (''perspectiveOrigin'', optional z_string),
      (''backfaceVisibility'', optional (z_enum [''visible'', ''hidden''])),
      (''transformStyle'', optional (z_enum [''flat'', ''preserve-3d'']))])"

definition ScrollTriggerConfigSchema :: schema where
  "ScrollTriggerConfigSchema = z_object
     [(''target'', optional z_string),
      (''axis'', optional (z_enum [''x'', ''y''])),
      (''start'', optional z_string),
      (''end'', optional z_string),
      (''scrub'', optional (z_union [z_boolean, z_number])),
      (''pin'', optional z_boolean),
      (''markers'', optional z_boolean),
      (''offset'', optional (z_tuple [z_number, z_number]))]"

definition InViewConfigSchema :: schema where
  "InViewConfigSchema = z_object
     [(''margin'', optional z_string),
      (''amount'', optional (z_union [z_enum [''some'', ''all''], z_number])),
      (''once'', optional z_boolean)]"

definition AudioTriggerConfigSchema :: schema where
  "AudioTriggerConfigSchema = z_object
     [(''band'', optional (z_union [z_number, z_enum [''bass'', ''mid'', ''treble'', ''all'']])),
      (''threshold'', z_max 1 (z_min 0 z_number)),
      (''edge'', optional (z_enum [''rising'', ''falling'', ''both'']))]"

definition TriggerDefinitionSchema :: schema where
  "TriggerDefinitionSchema = z_discriminatedUnion ''type''
     [passthrough (z_object [(''type'', z_literal ''mount''), (''delay'', optional z_number)]),
      passthrough (z_object [(''type'', z_literal ''unmount'')]),
      passthrough (z_object [(''type'', z_literal ''hover''), (''element'', optional z_string)]),
      passthrough (z_object [(''type'', z_literal ''hoverEnd''), (''element'', optional z_string)]),
      passthrough (z_object [(''type'', z_literal ''tap''), (''element'', optional z_string)]),
      passthrough (z_object [(''type'', z_literal ''focus''), (''element'', optional z_string)]),
      passthrough (z_object [(''type'', z_literal ''blur''), (''element'', optional z_string)]),
      passthrough (z_object [(''type'', z_literal ''scroll''), (''config'', ScrollTriggerConfigSchema)]),
      passthrough (z_object [(''type'', z_literal ''inView''), (''config'', optional InViewConfigSchema)]),
      passthrough (z_object
        [(''type'', z_literal ''swipe''),
         (''direction'', z_enum [''left'', ''right'', ''up'', ''down'', ''any'']),
         (''element'', optional z_string),
         (''threshold'', optional z_number),
         (''velocity'', optional z_number)]),
      passthrough (z_object
        [(''type'', z_literal ''drag''),
         (''element'', optional z_string),
         (''axis'', optional (z_enum [''x'', ''y'', ''both'']))]),
      passthrough (z_object [(''type'', z_literal ''custom''), (''event'', z_string)]),
      passthrough (z_object [(''type'', z_literal ''state''), (''condition'', z_string)]),
      passthrough (z_object [(''type'', z_literal ''audio''), (''config'', AudioTriggerConfigSchema)])]"

definition KeyframeDefinitionSchema :: schema where
  "KeyframeDefinitionSchema = z_object
     [(''at'', z_max 100 (z_min 0 z_number)),
      (''state'', partial ElementStateSchema),
      (''easing'', optional EasingDefinitionSchema)]"

definition BaseAnimationProps :: "(string \<times> schema) list" where
  "BaseAnimationProps =
     [(''delay'', optional z_number),
      (''offset'', optional z_number),
      (''stagger'', optional StaggerDefinitionSchema)]"

definition KeyframeAnimationSchema :: schema where
  "KeyframeAnimationSchema = z_object
     ([(''type'', z_literal ''keyframes''),
       (''target'', z_union [z_string, z_array z_string]),
       (''keyframes'', min_items 1 (z_array KeyframeDefinitionSchema)),
       (''duration'', optional z_number),
       (''easing'', optional EasingDefinitionSchema),
       (''label'', optional z_string)]
      @ BaseAnimationProps)"

definition SpringAnimationSchema :: schema where
  "SpringAnimationSchema = z_object
     ([(''type'', z_literal ''spring''),
       (''target'', z_union [z_string, z_array z_string]),
       (''from'', optional (partial ElementStateSchema)),
       (''to'', partial ElementStateSchema),
       (''spring'', SpringConfigSchema)]
      @ BaseAnimationProps)"

definition TransitionAnimationSchema :: schema where
  "TransitionAnimationSchema = z_object
     ([(''type'', z_literal ''transition''),
       (''target'', z_union [z_string, z_array z_string]),
       (''from'', optional (partial ElementStateSchema)),
       (''to'', partial ElementStateSchema),
       (''duration'', optional z_number),
       (''easing'', optional EasingDefinitionSchema)]
      @ BaseAnimationProps)"

definition MorphAnimationSchema :: schema where
  "MorphAnimationSchema = z_object
     [(''type'', z_literal ''morph''),
      (''target'', z_string),
      (''from'', optional z_string),
      (''to'', z_string),
      (''duration'', optional z_number),
      (''easing'', optional EasingDefinitionSchema),
      (''delay'', optional z_number),
      (''offset'', optional z_number)]"

definition MatchCutAnimationSchema :: schema where
  "MatchCutAnimationSchema = z_object
     [(''type'', z_literal ''matchCut''),
      (''from'', z_string),
      (''to'', z_string),
      (''duration'', optional z_number),
      (''easing'', optional EasingDefinitionSchema),
      (''zoomPoint'', optional (z_object [(''x'', z_number), (''y'', z_number)])),
      (''crossfade'', optional z_boolean),
      (''offset'', optional z_number)]"

definition ParticleEmitterConfigSchema :: schema where
  "ParticleEmitterConfigSchema = z_object
     [(''position'', z_object [(''x'', z_number), (''y'', z_number)]),
      (''count'', z_positive (z_int z_number)),
      (''rate'', optional z_number),
      (''burst'', optional z_boolean),
      (''lifetime'', z_object [(''min'', z_number), (''max'', z_number)]),
      (''velocity'', z_object
         [(''speed'', z_object [(''min'', z_number), (''max'', z_number)]),
          (''direction'', z_object [(''min'', z_number), (''max'', z_number)])]),
      (''physics'', optional (z_object
         [(''gravity'', optional (z_object [(''x'', z_number), (''y'', z_number)])),
          (''friction'', optional z_number),
          (''bounce'', optional z_number)])),
      (''appearance'', z_object
         [(''shape'', z_enum [''circle'', ''square'', ''star'', ''confetti'', ''image'']),
          (''size'', z_object [(''start'', z_number), (''end'', z_number)]),
          (''colors'', z_array ColorValueSchema),
          (''opacity'', z_object [(''start'', z_number), (''end'', z_number)]),
          (''rotation'', optional (z_object
             [(''speed'', z_number),
              (''random'', optional z_boolean)]))])]"

definition ParticleAnimationSchema :: schema where
  "ParticleAnimationSchema = z_object
     [(''type'', z_literal ''particles''),
      (''emitter'', ParticleEmitterConfigSchema),
      (''duration'', optional z_number),
      (''offset'', optional z_number)]"

definition TextAnimationSchema :: schema where
  "TextAnimationSchema = z_object
     [(''type'', z_literal ''text''),
      (''target'', z_string),
      (''effect'', z_enum [''typewriter'', ''scramble'', ''split'', ''wave'', ''gradient'', ''reveal'']),
      (''duration'', optional z_number),
      (''stagger'', optional z_number),
      (''splitBy'', optional (z_enum [''character'', ''word'', ''line''])),
      (''easing'', optional EasingDefinitionSchema),
      (''delay'', optional z_number),
      (''offset'', optional z_number)]"

text \<open>
  \<open>AnimationBlockSchema\<close> is \<open>z.lazy\<close> of the union below, which names it again for the
  children of a group and for \<open>onRelease\<close> of a drag.
\<close>

abbreviation AnimationBlockSchema :: schema where
  "AnimationBlockSchema \<equiv> ZLazy"

definition animationBlockUnion :: schema where
  "animationBlockUnion = z_discriminatedUnion ''type''
     [passthrough KeyframeAnimationSchema,
      passthrough SpringAnimationSchema,
      passthrough TransitionAnimationSchema,
      passthrough (z_object
        [(''type'', z_literal ''group''),
         (''mode'', z_enum [''parallel'', ''sequence'']),
         (''animations'', z_array AnimationBlockSchema),
         (''delay'', optional z_number),
         (''stagger'', optional StaggerDefinitionSchema),
         (''offset'', optional z_number)]),
      passthrough MorphAnimationSchema,
      passthrough MatchCutAnimationSchema,
      passthrough (z_object
        [(''type'', z_literal ''drag''),
         (''target'', z_string),
         (''axis'', optional (z_enum [''x'', ''y'', ''both''])),
         (''constraints'', optional (z_object
            [(''left'', optional z_number),
             (''right'', optional z_number),
             (''top'', optional z_number),
             (''bottom'', optional z_number)])),
         (''elastic'', optional z_number),
         (''dragElastic'', optional z_number),
         (''dragMomentum'', optional z_boolean),
         (''onRelease'', optional AnimationBlockSchema)]),
      passthrough ParticleAnimationSchema,
      passthrough TextAnimationSchema]"

definition BlendModeSchema :: schema where
  "BlendModeSchema = z_enum
     [''normal'', ''multiply'', ''screen'', ''overlay'', ''darken'', ''lighten'',
      ''colorDodge'', ''colorBurn'', ''hardLight'', ''softLight'', ''difference'',
      ''exclusion'', ''hue'', ''saturation'', ''color'', ''luminosity'']"

definition MaskDefinitionSchema :: schema where
  "MaskDefinitionSchema = z_object
     [(''path'', optional z_string),
      (''element'', optional z_string),
      (''mode'', z_enum [''alpha'', ''luminance'']),
      (''inverted'', optional z_boolean)]"

definition EffectDefinitionSchema :: schema where
  "EffectDefinitionSchema = z_discriminatedUnion ''type''
     [z_object
        [(''type'', z_literal ''glow''),
         (''color'', optional ColorValueSchema),
         (''radius'', NumberOrExpressionSchema),
         (''intensity'', NumberOrExpressionSchema),
         (''threshold'', optional NumberOrExpressionSchema)],
      z_object
        [(''type'', z_literal ''lightRays''),
         (''origin'', z_object [(''x'', z_number), (''y'', z_number)]),
         (''length'', NumberOrExpressionSchema),
         (''intensity'', NumberOrExpressionSchema),
         (''color'', optional ColorValueSchema),
         (''decay'', optional NumberOrExpressionSchema)],
      z_object
        [(''type'', z_literal ''dropShadow''),
         (''color'', ColorValueSchema),
         (''offsetX'', NumberOrExpressionSchema),
         (''offsetY'', NumberOrExpressionSchema),
         (''blur'', NumberOrExpressionSchema),
         (''spread'', optional NumberOrExpressionSchema)],
      z_object
        [(''type'', z_literal ''motionBlur''),
         (''samples'', z_positive (z_int z_number)),
         (''strength'', NumberOrExpressionSchema)]]"

definition BaseElementSchema :: schema where
  "BaseElementSchema = passthrough (z_object
     [(''initial'', z_default (optional ElementStateSchema) (JsonObject [])),
      (''blendMode'', optional BlendModeSchema),
      (''mask'', optional MaskDefinitionSchema),
      (''effects'', optional (z_array EffectDefinitionSchema))])"

definition LayoutDefinitionSchema :: schema where
  "LayoutDefinitionSchema = z_object
     [(''type'', z_enum [''row'', ''column'', ''stack'', ''wrap'', ''grid'']),
      (''gap'', optional NumberOrExpressionSchema),
      (''padding'', optional (z_union
         [NumberOrExpressionSchema,
          z_tuple [NumberOrExpressionSchema, NumberOrExpressionSchema,
                   NumberOrExpressionSchema, NumberOrExpressionSchema]])),
      (''align'', optional (z_enum [''start'', ''center'', ''end'', ''stretch'', ''baseline''])),
      (''justify'', optional (z_enum [''start'', ''center'', ''end'', ''between'', ''around'', ''evenly''])),
      (''wrap'', optional z_boolean),
      (''columns'', optional (z_positive (z_int z_number))),
      (''rows'', optional (z_positive (z_int z_number)))]"

definition ElementDefinitionSchema :: schema where
  "ElementDefinitionSchema = z_discriminatedUnion ''type''
     [passthrough (extend BaseElementSchema [(''type'', z_literal ''box'')]),
      passthrough (extend BaseElementSchema
        [(''type'', z_literal ''circle''),
         (''radius'', optional NumberOrExpressionSchema)]),
      passthrough (extend BaseElementSchema
        [(''type'', z_literal ''text''),
         (''content'', z_string),
         (''font'', optional z_string),
         (''fontSize'', optional NumberOrExpressionSchema),
         (''fontWeight'', optional (z_union [z_number, z_string])),
         (''lineHeight'', optional NumberOrExpressionSchema),
         (''letterSpacing'', optional NumberOrExpressionSchema),
         (''textAlign'', optional (z_enum [''left'', ''center'', ''right'']))]),
      passthrough (extend BaseElementSchema
        [(''type'', z_literal ''svg''),
         (''viewBox'', optional z_string),
         (''children'', z_default (optional (z_array z_string)) (JsonArray []))]),
      passthrough (extend BaseElementSchema
        [(''type'', z_literal ''path''),
         (''d'', z_string)]),
      passthrough (extend BaseElementSchema
        [(''type'', z_literal ''mesh''),
         (''image'', z_string),
         (''vertices'', z_array (z_object
            [(''x'', z_number),
             (''y'', z_number),
             (''u'', optional z_number),
             (''v'', optional z_number)])),
         (''triangles'', z_array (z_nonnegative (z_int z_number))),
         (''bones'', optional (z_array (z_object
            [(''bone'', z_string),
             (''vertices'', z_array (z_nonnegative (z_int z_number))),
             (''weights'', z_array (z_max 1 (z_min 0 z_number)))])))]),
      passthrough (extend BaseElementSchema
        [(''type'', z_literal ''group''),
         (''children'', z_default (optional (z_array z_string)) (JsonArray [])),
         (''layout'', optional LayoutDefinitionSchema)]),
      passthrough (extend BaseElementSchema
        [(''type'', z_literal ''custom''),
         (''component'', z_string),
         (''props'', optional (z_record z_unknown))])]"

definition SequenceDefinitionSchema :: schema where
  "SequenceDefinitionSchema = z_object
     [(''id'', optional z_string),
      (''trigger'', TriggerDefinitionSchema),
      (''animations'', z_array AnimationBlockSchema),
      (''repeat'', optional RepeatDefinitionSchema),
      (''yoyo'', optional z_boolean)]"

definition AnimationDefaultsSchema :: schema where
  "AnimationDefaultsSchema = z_object
     [(''duration'', optional z_number),
      (''easing'', optional EasingDefinitionSchema),
      (''stagger'', optional StaggerDefinitionSchema)]"

definition TimelineDefinitionSchema :: schema where
  "TimelineDefinitionSchema = passthrough (z_object
     [(''defaults'', optional AnimationDefaultsSchema),
      (''sequences'', z_array SequenceDefinitionSchema)])"

definition StateTransitionSchema :: schema where
  "StateTransitionSchema = z_object
     [(''target'', z_string),
      (''condition'', optional z_string),
      (''trigger'', optional z_string),
      (''duration'', optional z_number),
      (''easing'', optional EasingDefinitionSchema)]"

definition StateDefinitionSchema :: schema where
  "StateDefinitionSchema = z_object
     [(''animation'', optional z_string),
      (''onEnter'', optional (z_array AnimationBlockSchema)),
      (''onExit'', optional (z_array AnimationBlockSchema)),
      (''transitions'', z_array StateTransitionSchema)]"

definition InputDefinitionSchema :: schema where
  "InputDefinitionSchema = z_object
     [(''type'', z_enum [''boolean'', ''number'', ''trigger'']),
      (''default'', optional (z_union [z_boolean, z_number])),
      (''min'', optional z_number),
      (''max'', optional z_number)]"

definition StateMachineSchema :: schema where
  "StateMachineSchema = z_object
     [(''initial'', z_string),
      (''states'', z_record StateDefinitionSchema),
      (''inputs'', optional (z_record InputDefinitionSchema))]"

definition ViewModelPropertySchema :: schema where
  "ViewModelPropertySchema = z_object
     [(''type'', z_enum [''string'', ''number'', ''boolean'', ''color'', ''enum'']),
      (''default'', z_union [z_string, z_number, z_boolean]),
      (''options'', optional (z_array z_string))]"

definition PropertyBindingSchema :: schema where
  "PropertyBindingSchema = z_object
     [(''source'', z_string),
      (''target'', z_string),
      (''transform'', optional z_string)]"

definition DataBindingSchema :: schema where
  "DataBindingSchema = z_object
     [(''viewModel'', z_record ViewModelPropertySchema),
      (''bindings'', z_array PropertyBindingSchema)]"

definition AudioAnalysisConfigSchema :: schema where
  "AudioAnalysisConfigSchema = z_object
     [(''bands'', optional (z_max 32 (z_min 1 (z_int z_number)))),
      (''smoothing'', optional (z_max 1 (z_min 0 z_number))),
      (''minDecibels'', optional z_number),
      (''maxDecibels'', optional z_number),
      (''fftSize'', optional (z_int z_number))]"

definition AudioBindingSchema :: schema where
  "AudioBindingSchema = z_object
     [(''band'', optional (z_union [z_number, z_enum [''bass'', ''mid'', ''treble'', ''all'']])),
      (''property'', z_string),
      (''range'', z_tuple [z_number, z_number]),
      (''output'', z_tuple [z_number, z_number]),
      (''easing'', optional EasingDefinitionSchema)]"

definition AudioConfigSchema :: schema where
  "AudioConfigSchema = z_object
     [(''source'', z_string),
      (''analysis'', optional AudioAnalysisConfigSchema),
      (''bindings'', optional (z_array AudioBindingSchema))]"

definition AnimationMetaSchema :: schema where
  "AnimationMetaSchema = z_object
     [(''name'', optional z_string),
      (''description'', optional z_string),
      (''duration'', optional z_number),
      (''fps'', optional (z_positive (z_int z_number))),
      (''viewport'', optional (z_object
         [(''width'', z_positive z_number),
          (''height'', z_positive z_number)]))]"

definition KineticAnimationSchema :: schema where
  "KineticAnimationSchema = passthrough (z_object
     [(''$schema'', optional z_string),
      (''version'', z_literal ''1.0''),
      (''meta'', optional AnimationMetaSchema),
      (''variables'', optional (z_record (z_union [z_number, z_string, z_array z_number]))),
      (''audio'', optional AudioConfigSchema),
      (''elements'', z_record ElementDefinitionSchema),
      (''timeline'', TimelineDefinitionSchema),
      (''stateMachine'', optional StateMachineSchema),
      (''dataBinding'', optional DataBindingSchema)])"

subsection \<open>Parsing a value against a schema\<close>

text \<open>
  The result of the library is the parsed value or a list of issues; an issue is kept
  as its path, the keys and indices from the value parsed down to the place of the
  violation (its message and code are texts of the library).  The parsed value of an
  absent optional key is \<open>undefined\<close>.
\<close>

type_synonym issue = "string list"

datatype SafeParseReturn = Success "json option" | Failure "issue list"

fun isSuccess :: "SafeParseReturn \<Rightarrow> bool" where
  "isSuccess (Success v) = True"
| "isSuccess (Failure issues) = False"

text \<open>The issues of a member, under the key or index of the member.\<close>

fun issuesUnder :: "string \<Rightarrow> SafeParseReturn \<Rightarrow> issue list" where
  "issuesUnder k (Success v) = []"
| "issuesUnder k (Failure issues) = map (\<lambda>i. k # i) issues"

text \<open>A union takes its first option that accepts the value.\<close>

fun firstSuccess :: "SafeParseReturn list \<Rightarrow> SafeParseReturn" where
  "firstSuccess [] = Failure [[]]"
| "firstSuccess (Success v # rs) = Success v"
| "firstSuccess (Failure issues # rs) = firstSuccess rs"

text \<open>
  The parsed object holds the declared keys whose parsed value is defined, in the order
  of the declaration; the parsed array holds the parsed items.
\<close>

fun definedEntries :: "(string \<times> SafeParseReturn) list \<Rightarrow> (string \<times> json) list" where
  "definedEntries [] = []"
| "definedEntries ((k, Success (Some v)) # rs) = (k, v) # definedEntries rs"
| "definedEntries ((k, r) # rs) = definedEntries rs"

fun definedItems :: "SafeParseReturn list \<Rightarrow> json list" where
  "definedItems [] = []"
| "definedItems (Success (Some v) # rs) = v # definedItems rs"
| "definedItems (r # rs) = definedItems rs"

text \<open>
  The discriminator of an option of a discriminated union: the literal that the
  option, an object schema, declares for the discriminating key.
\<close>

fun tagOf :: "string \<Rightarrow> schema \<Rightarrow> string option" where
  "tagOf key (ZObject u shape) =
     (case map_of shape key of Some (ZLiteral t) \<Rightarrow> Some t | _ \<Rightarrow> None)"
| "tagOf key s = None"

text \<open>
  The measure of the recursion: a step either goes to a member of the value, or stays
  at the value and goes to a schema of smaller rank.  The lazy schema unfolds to the
  union of the animation blocks, whose options are object schemas.
\<close>

fun rank :: "schema \<Rightarrow> nat" where
  "rank (ZOptional s) = Suc (rank s)"
| "rank (ZDefault s d) = Suc (rank s)"
| "rank (ZRefine s f) = Suc (rank s)"
| "rank (ZUnion ss) = Suc (foldr max (map rank ss) 0)"
| "rank (ZDiscriminatedUnion key ss) = Suc (foldr max (map rank ss) 0)"
| "rank ZLazy = 2"
| "rank s = 0"

fun jsize :: "json option \<Rightarrow> nat" where
  "jsize None = 0"
| "jsize (Some j) = Suc (size j)"

text \<open>
  \<open>parse\<close>: the value is checked against the schema and rebuilt.  A primitive schema
  returns the value it accepts.  An array, a tuple, a record and an object parse their
  members and succeed when every member does; an object reads each declared key in
  the value (absent: \<open>undefined\<close>), and returns the parsed declared keys followed, for
  \<open>Passthrough\<close>, by the other entries of the value untouched.  \<open>optional\<close> accepts
  \<open>undefined\<close>; a default stands for \<open>undefined\<close>.  A discriminated union reads the
  discriminating key of the value and parses with the option that declares it.  A
  refinement tests the parsed value.
\<close>

function parse :: "schema \<Rightarrow> json option \<Rightarrow> SafeParseReturn" where
  "parse ZString j = (case j of Some (JsonString s) \<Rightarrow> Success j | _ \<Rightarrow> Failure [[]])"
| "parse (ZRegex f) j =
     (case j of
        Some (JsonString s) \<Rightarrow> (if f s then Success j else Failure [[]])
      | _ \<Rightarrow> Failure [[]])"
| "parse (ZNumber f) j =
     (case j of
        Some (JsonNumber x) \<Rightarrow> (if f x then Success j else Failure [[]])
      | _ \<Rightarrow> Failure [[]])"
| "parse ZBoolean j = (case j of Some (JsonBool b) \<Rightarrow> Success j | _ \<Rightarrow> Failure [[]])"
| "parse (ZLiteral v) j = (if j = Some (JsonString v) then Success j else Failure [[]])"
| "parse (ZEnum vs) j =
     (case j of
        Some (JsonString s) \<Rightarrow> (if s \<in> set vs then Success j else Failure [[]])
      | _ \<Rightarrow> Failure [[]])"
| "parse ZUnknown j = Success j"
| "parse (ZArray s n) j =
     (case j of
        Some (JsonArray xs) \<Rightarrow>
          (let rs = map (\<lambda>x. parse s (Some x)) xs
           in if n \<le> length xs \<and> list_all isSuccess rs
              then Success (Some (JsonArray (definedItems rs)))
              else Failure ((if n \<le> length xs then [] else [[]])
                     @ concat (map (\<lambda>(i, r). issuesUnder (natToDigits i) r) (enumerate 0 rs))))
      | _ \<Rightarrow> Failure [[]])"
| "parse (ZTuple ss) j =
     (case j of
        Some (JsonArray xs) \<Rightarrow>
          (let rs = map (\<lambda>(s, x). parse s (Some x)) (zip ss xs)
           in if length xs = length ss \<and> list_all isSuccess rs
              then Success (Some (JsonArray (definedItems rs)))
              else Failure ((if length xs = length ss then [] else [[]])
                     @ concat (map (\<lambda>(i, r). issuesUnder (natToDigits i) r) (enumerate 0 rs))))
      | _ \<Rightarrow> Failure [[]])"
| "parse (ZRecord s) j =
     (case j of
        Some (JsonObject kvs) \<Rightarrow>
          (let rs = map (\<lambda>(k, v). (k, parse s (Some v))) kvs
           in if list_all (\<lambda>(k, r). isSuccess r) rs
              then Success (Some (JsonObject (definedEntries rs)))
              else Failure (concat (map (\<lambda>(k, r). issuesUnder k r) rs)))
      | _ \<Rightarrow> Failure [[]])"
| "parse (ZObject u shape) j =
     (case j of
        Some (JsonObject kvs) \<Rightarrow>
          (let rs = map (\<lambda>(k, s). (k, parse s (map_of kvs k))) shape;
               others = (case u of
                           Strip \<Rightarrow> []
                         | Passthrough \<Rightarrow> filter (\<lambda>(k, v). k \<notin> set (map fst shape)) kvs)
           in if list_all (\<lambda>(k, r). isSuccess r) rs
              then Success (Some (JsonObject (definedEntries rs @ others)))
              else Failure (concat (map (\<lambda>(k, r). issuesUnder k r) rs)))
      | _ \<Rightarrow> Failure [[]])"
| "parse (ZOptional s) j = (case j of None \<Rightarrow> Success None | Some x \<Rightarrow> parse s j)"
| "parse (ZDefault s d) j = (case j of None \<Rightarrow> Success (Some d) | Some x \<Rightarrow> parse s j)"
| "parse (ZUnion ss) j = firstSuccess (map (\<lambda>s. parse s j) ss)"
| "parse (ZDiscriminatedUnion key ss) j =
     (case j of
        Some (JsonObject kvs) \<Rightarrow>
          (case map_of kvs key of
             Some (JsonString t) \<Rightarrow>
               (case find (\<lambda>s. tagOf key s = Some t) ss of
                  Some s \<Rightarrow> parse s j
                | None \<Rightarrow> Failure [[key]])
           | _ \<Rightarrow> Failure [[key]])
      | _ \<Rightarrow> Failure [[]])"
| "parse (ZRefine s f) j =
     (case parse s j of
        Success (Some d) \<Rightarrow> (if f d then Success (Some d) else Failure [[]])
      | r \<Rightarrow> r)"
| "parse ZLazy j = parse animationBlockUnion j"
  by pat_completeness auto
termination
proof -
  have rank_member: "rank s \<le> foldr max (map rank ss) 0" if "s \<in> set ss" for s ss
    using that by (induction ss) auto
  have size_member: "size x \<le> size_list size xs" if "x \<in> set xs" for x :: json and xs
    using that by (induction xs) auto
  have size_value: "size v \<le> size_list (size_prod (\<lambda>x. 0) size) kvs"
    if "(k, v) \<in> set kvs" for k :: string and v :: json and kvs
    using that by (induction kvs) auto
  have size_map_of: "jsize (map_of kvs k) \<le> Suc (size_list (size_prod (\<lambda>x. 0) size) kvs)"
    for k :: string and kvs :: "(string \<times> json) list"
  proof (cases "map_of kvs k")
    case None
    then show ?thesis by simp
  next
    case (Some v)
    from size_value [OF map_of_SomeD [OF Some]] Some show ?thesis by simp
  qed
  have rank_union: "rank animationBlockUnion = 1"
    by (simp add: animationBlockUnion_def KeyframeAnimationSchema_def SpringAnimationSchema_def
        TransitionAnimationSchema_def MorphAnimationSchema_def MatchCutAnimationSchema_def
        ParticleAnimationSchema_def TextAnimationSchema_def)
  show ?thesis
    by (relation "measures [\<lambda>(s, j). jsize j, \<lambda>(s, j). rank s]")
       (auto simp: rank_union size_member size_value size_map_of less_Suc_eq_le
          rank_member find_Some_iff dest!: set_zip_rightD)
qed

subsection \<open>\<open>validateDSL\<close>\<close>

text \<open>
  \<open>validateDSL\<close>: the parsed document, or one error for each issue, with its path
  joined by dots.  \<open>validateDSLString\<close> reads the text with \<open>JSON.parse\<close> of the host
  first, which is a parameter here (\<open>None\<close> when it throws).
\<close>

fun joinDots :: "string list \<Rightarrow> string" where
  "joinDots [] = []"
| "joinDots [k] = k"
| "joinDots (k # ks) = k @ ''.'' @ joinDots ks"

datatype ValidationError = IssueAt string | InvalidJson

datatype ValidationResult = Valid "json option" | Invalid "ValidationError list"

definition safeParse :: "schema \<Rightarrow> json \<Rightarrow> SafeParseReturn" where
  "safeParse s input = parse s (Some input)"

definition validateDSL :: "json \<Rightarrow> ValidationResult" where
  "validateDSL input =
     (case safeParse KineticAnimationSchema input of
        Success d \<Rightarrow> Valid d
      | Failure issues \<Rightarrow> Invalid (map (\<lambda>i. IssueAt (joinDots i)) issues))"

definition validateDSLString :: "(string \<Rightarrow> json option) \<Rightarrow> string \<Rightarrow> ValidationResult" where
  "validateDSLString JSON_parse jsonString =
     (case JSON_parse jsonString of
        Some parsed_value \<Rightarrow> validateDSL parsed_value
      | None \<Rightarrow> Invalid [InvalidJson])"

subsection \<open>Well-formed schemas\<close>




subsection \<open>A document\<close>





text \<open>
  A document whose variable \<open>xs\<close> is an array of numbers and whose element \<open>card\<close>
  starts at the dotted reference \<open>$xs.1\<close>.
\<close>

definition arrayVariableDocument :: json where
  "arrayVariableDocument = JsonObject
     [(''version'', JsonString ''1.0''),
      (''variables'', JsonObject [(''xs'', JsonArray [JsonNumber 5, JsonNumber 7])]),
      (''elements'', JsonObject
         [(''card'', JsonObject
            [(''type'', JsonString ''box''),
             (''initial'', JsonObject [(''x'', JsonString ''$xs.1'')])])]),
      (''timeline'', JsonObject [(''sequences'', JsonArray [])])]"
section \<open>Properties of the stagger delay\<close>

text \<open>
  Claim C4.  For a target list of length \<open>n\<close>, an index \<open>i\<close> and an increment
  \<open>each\<close>, the stagger delay is \<open>i * each\<close> for the origin \<open>first\<close> and for an absent
  origin, \<open>(n - 1 - i) * each\<close> for \<open>last\<close>, \<open>|i - (n - 1) / 2| * each\<close> for \<open>center\<close>,
  \<open>((n - 1) / 2 - |i - (n - 1) / 2|) * each\<close> for \<open>edges\<close> and \<open>|i - k| * each\<close> for the
  numeric origin \<open>k\<close>; for \<open>center\<close> over five targets with \<open>each = 100\<close> the indices
  0 to 4 get the delays 200, 100, 0, 100, 200.
\<close>

theorem stagger_delay_formulas:
  "calculateStaggerDelay i n \<lparr>each = e, origin = None\<rparr> = i * e
   \<and> calculateStaggerDelay i n \<lparr>each = e, origin = Some First\<rparr> = i * e
   \<and> calculateStaggerDelay i n \<lparr>each = e, origin = Some Last\<rparr> = (n - 1 - i) * e
   \<and> calculateStaggerDelay i n \<lparr>each = e, origin = Some Center\<rparr> = \<bar>i - (n - 1) / 2\<bar> * e
   \<and> calculateStaggerDelay i n \<lparr>each = e, origin = Some Edges\<rparr> = ((n - 1) / 2 - \<bar>i - (n - 1) / 2\<bar>) * e
   \<and> calculateStaggerDelay i n \<lparr>each = e, origin = Some (FromIndex k)\<rparr> = \<bar>i - k\<bar> * e
   \<and> map (\<lambda>j. calculateStaggerDelay (real j) 5 \<lparr>each = 100, origin = Some Center\<rparr>) [0 ..< 5]
       = [200, 100, 0, 100, 200]"
  by (simp add: calculateStaggerDelay_def Let_def upt_rec)


section \<open>Properties of the spring approximation\<close>














section \<open>Properties of the expression resolver\<close>

subsection \<open>The character check\<close>

text \<open>
  The sanitizer keeps the space character, while the text it is compared with has all
  white space removed.  So the check fails for every text with a space in it, it fails
  for every text with a character that is neither allowed nor white space, and it
  passes when every character is an allowed character other than the space or a white
  space character other than the space.
\<close>

lemmas char_classes = isDigit_def isWordChar_def isSpaceChar_def isAllowedChar_def

lemmas resolver_eval =
  evaluateExpression_def evaluateComplexExpression_def startsWith_def endsWith_def
  getVariable_def replaceVariable_def numberToString_def natToDigits.simps
  strictFunction_def lexer.simps consToken_def digitsValue_def digitVal_def
  js_mul_def js_div_def js_sub_def signed_inf_def signed_zero_def

lemma allowed_not_space: "isAllowedChar c \<Longrightarrow> c \<noteq> CHR '' '' \<Longrightarrow> \<not> isSpaceChar c"
  by (auto simp: char_classes)

lemma space_is_allowed_and_space: "isAllowedChar (CHR '' '') \<and> isSpaceChar (CHR '' '')"
  by (simp add: char_classes)

lemma check_fails_on_space:
  assumes "CHR '' '' \<in> set resolved"
  shows "filter isAllowedChar resolved \<noteq> filter (\<lambda>c. \<not> isSpaceChar c) resolved"
proof
  assume eq: "filter isAllowedChar resolved = filter (\<lambda>c. \<not> isSpaceChar c) resolved"
  have "CHR '' '' \<in> set (filter isAllowedChar resolved)"
    using assms space_is_allowed_and_space by simp
  moreover have "CHR '' '' \<notin> set (filter (\<lambda>c. \<not> isSpaceChar c) resolved)"
    using space_is_allowed_and_space by simp
  ultimately show False using eq by simp
qed



lemma space_in_expression_is_error:
  assumes "substituteVariables vars (extractVariables expr) (Some expr) = Inr (Some resolved)"
    and "CHR '' '' \<in> set resolved"
  shows "evaluateComplexExpression vars expr p errs =
           Some (Fin 0, errs @ [\<lparr>etype = Expression, message = InvalidCharacters expr p, path = p\<rparr>])"
  using assms check_fails_on_space [OF assms(2)]
  by (simp add: evaluateComplexExpression_def)

lemma substituteVariables_undefined:
  assumes "n \<in> set names" "getVariable vars n = Undefined"
  shows "\<exists>m \<in> set names. getVariable vars m = Undefined \<and> substituteVariables vars names resolved = Inl m"
  using assms
proof (induction names arbitrary: resolved)
  case Nil
  then show ?case by simp
next
  case (Cons a names)
  show ?case
  proof (cases "getVariable vars a = Undefined")
    case True
    then show ?thesis by simp
  next
    case False
    with Cons.prems have "n \<in> set names" by auto
    from Cons.IH [OF this Cons.prems(2)] obtain m where
      m: "m \<in> set names" "getVariable vars m = Undefined"
         "substituteVariables vars names (replaceVariable resolved a (valueToString (getVariable vars a))) = Inl m"
      by blast
    with False show ?thesis by (cases "getVariable vars a") auto
  qed
qed

lemma one_undefined_variable_one_error:
  assumes "n \<in> set (extractVariables expr)" "getVariable vars n = Undefined"
    and "\<forall>m \<in> set (extractVariables expr). m \<noteq> n \<longrightarrow> getVariable vars m \<noteq> Undefined"
  shows "evaluateComplexExpression vars expr p errs =
           Some (Fin 0, errs @ [\<lparr>etype = Variable, message = UnknownVariable n p, path = p\<rparr>])"
proof -
  from substituteVariables_undefined [OF assms(1,2)] obtain m where
    m: "m \<in> set (extractVariables expr)" "getVariable vars m = Undefined"
       "substituteVariables vars (extractVariables expr) (Some expr) = Inl m"
    by blast
  with assms(3) have "m = n" by blast
  with m show ?thesis by (simp add: evaluateComplexExpression_def)
qed

text \<open>
  Claim C1.  The claim says that a field \<open>${a + b}\<close> over numeric variables \<open>a\<close> and \<open>b\<close>
  resolves to their sum.  With \<open>a = 1\<close> and \<open>b = 2\<close> the field \<open>${$a + $b}\<close> resolves to
  zero with the error \<open>Expression contains invalid characters\<close>, and so does the text
  \<open>${a + b}\<close> itself; only the field without spaces, \<open>${$a+$b}\<close>, resolves to 3.  The
  second half of the claim holds (\<open>one_undefined_variable_one_error\<close> above): when one
  of the extracted names is undefined, resolution gives zero and exactly one error, which
  names it.
\<close>

theorem spaced_sum_is_rejected:
  "evaluateExpression [''a'' \<mapsto> VNum 1, ''b'' \<mapsto> VNum 2] ''${$a + $b}'' ''elements.card.initial.x'' []
     = Some (Fin 0, [\<lparr>etype = Expression,
                      message = InvalidCharacters ''$a + $b'' ''elements.card.initial.x'',
                      path = ''elements.card.initial.x''\<rparr>])
   \<and> evaluateExpression [''a'' \<mapsto> VNum 1, ''b'' \<mapsto> VNum 2] ''${a + b}'' ''elements.card.initial.x'' []
     = Some (Fin 0, [\<lparr>etype = Expression,
                      message = InvalidCharacters ''a + b'' ''elements.card.initial.x'',
                      path = ''elements.card.initial.x''\<rparr>])
   \<and> evaluateExpression [''a'' \<mapsto> VNum 1, ''b'' \<mapsto> VNum 2] ''${$a+$b}'' ''elements.card.initial.x'' []
     = Some (Fin 3, [])"
  by (simp add: resolver_eval char_classes)


subsection \<open>The restricted evaluator\<close>






subsection \<open>Dotted names\<close>
















section \<open>Properties of the runtime interpreter\<close>

subsection \<open>Time and effects of the combinators\<close>

lemma elapsed_andThen [simp]: "elapsed (andThen a b) = elapsed a + elapsed b"
  by (simp add: andThen_def)

lemma effects_andThen: "map snd (effects (andThen a b)) = map snd (effects a) @ map snd (effects b)"
  by (simp add: andThen_def case_prod_unfold comp_def)

lemma elapsed_immediately [simp]: "elapsed immediately = 0"
  by (simp add: immediately_def)

lemma effects_immediately [simp]: "effects immediately = []"
  by (simp add: immediately_def)

lemma elapsed_effect [simp]: "elapsed (effect e) = 0"
  by (simp add: effect_def)

lemma effects_effect [simp]: "map snd (effects (effect e)) = [e]"
  by (simp add: effect_def)

lemma elapsed_delay [simp]: "elapsed (delay ms) = max 0 ms"
  by (simp add: delay_def)

lemma effects_delay [simp]: "effects (delay ms) = []"
  by (simp add: delay_def)

lemma elapsed_delayIfSet [simp]: "elapsed (delayIfSet v) = waited v"
  by (simp add: delayIfSet_def waited_def split: option.splits)

lemma effects_delayIfSet [simp]: "effects (delayIfSet v) = []"
  by (simp add: delayIfSet_def split: option.splits)

lemma elapsed_aroundBlock:
  "state interp \<noteq> Stopped \<Longrightarrow>
   elapsed (aroundBlock interp base kind handler) =
     waited (block_offset base) + waited (block_delay base) + elapsed handler"
  by (simp add: aroundBlock_def)

lemma effects_aroundBlock:
  "state interp \<noteq> Stopped \<Longrightarrow>
   map snd (effects (aroundBlock interp base kind handler)) =
     Emit (AnimationStart kind) # map snd (effects handler) @ [Emit (AnimationEnd kind)]"
  by (simp add: aroundBlock_def effects_andThen)

lemma elapsed_executeInTurn:
  "elapsed (executeInTurn interp stagger children) =
     (\<Sum>child \<leftarrow> children. elapsed (executeAnimationBlock interp child)
                            + (case stagger of Some s \<Rightarrow> max 0 (each s) | None \<Rightarrow> 0))"
  by (induction children) (auto split: option.splits)

lemma executeEach_map: "executeEach interp children = map (executeAnimationBlock interp) children"
  by (induction children) auto

lemma foldl_max_Max: "foldl max (a::real) xs = Max (set (a # xs))"
proof (induction xs arbitrary: a)
  case Nil
  then show ?case by simp
next
  case (Cons x xs)
  have "Max (insert a (insert x (set xs))) = Max (insert (max a x) (set xs))"
    by (metis List.finite_set Max_insert Max_singleton empty_not_insert finite_insert max.assoc)
  with Cons show ?case by simp
qed


subsection \<open>Groups\<close>

text \<open>
  Claim C6.  For a group with the three children \<open>c1\<close>, \<open>c2\<close>, \<open>c3\<close>, whose own executions
  take \<open>t1\<close>, \<open>t2\<close> and \<open>t3\<close>: in the mode \<open>sequence\<close> the group's execution takes
  \<open>t1 + t2 + t3\<close> and the stagger wait after each of the three children, so it is not
  over before \<open>t1 + t2 + t3\<close> and the two waits between the children have passed; in the
  mode \<open>parallel\<close> it takes the largest of \<open>t1\<close>, \<open>t2\<close> and \<open>t3\<close>.
\<close>

theorem group_completion_times:
  "elapsed (executeGroup interp base Sequence [c1, c2, c3]) =
     elapsed (executeAnimationBlock interp c1) + elapsed (executeAnimationBlock interp c2)
     + elapsed (executeAnimationBlock interp c3)
     + 3 * (case block_stagger base of Some s \<Rightarrow> max 0 (each s) | None \<Rightarrow> 0)
   \<and> elapsed (executeAnimationBlock interp c1) + elapsed (executeAnimationBlock interp c2)
     + elapsed (executeAnimationBlock interp c3)
     + 2 * (case block_stagger base of Some s \<Rightarrow> max 0 (each s) | None \<Rightarrow> 0)
       \<le> elapsed (executeGroup interp base Sequence [c1, c2, c3])
   \<and> elapsed (executeGroup interp base Parallel [c1, c2, c3]) =
     max (elapsed (executeAnimationBlock interp c1))
       (max (elapsed (executeAnimationBlock interp c2)) (elapsed (executeAnimationBlock interp c3)))"
  by (auto simp: allOf_def split: option.splits)

text \<open>Witness for claim C6: three children that take 100, 200 and 300 milliseconds
  in a group with a stagger of 50.\<close>

theorem group_completion_times_witness:
  "elapsed (executeGroup boxInterpreter staggeredGroup Sequence threeWaits) = 750
   \<and> elapsed (executeGroup boxInterpreter staggeredGroup Parallel threeWaits) = 300"
proof -
  have t: "elapsed (executeAnimationBlock boxInterpreter (ParticlesBlock plainBlock (Some 100))) = 100"
    "elapsed (executeAnimationBlock boxInterpreter (TextBlock plainBlock (Some 200))) = 200"
    "elapsed (executeAnimationBlock boxInterpreter (ParticlesBlock plainBlock (Some 300))) = 300"
    by (simp_all add: aroundBlock_def executeParticles_def executeText_def plainBlock_def
          waited_def boxInterpreter_def play_def registerControl_def createInterpreter_def)
  show ?thesis
    using group_completion_times [of boxInterpreter staggeredGroup
        "ParticlesBlock plainBlock (Some 100)" "TextBlock plainBlock (Some 200)"
        "ParticlesBlock plainBlock (Some 300)"] t
    by (simp add: threeWaits_def staggeredGroup_def)
qed

subsection \<open>Targets without a handle\<close>

lemma effects_startTarget_missing:
  "controls interp targetId = None \<Longrightarrow>
   map snd (effects (startTarget interp stagger n target transition (index, targetId))) =
     [Warn (''No control registered for element: '' @ targetId)]"
  by (simp add: startTarget_def)

lemma effects_startTarget_registered:
  "controls interp targetId = Some control \<Longrightarrow>
   map snd (effects (startTarget interp stagger n target transition (index, targetId))) =
     [Start targetId target transition]"
  by (simp add: startTarget_def effects_andThen)

lemma handle_calls_startTarget:
  "filter isHandleCall (map snd (effects (startTarget interp stagger n target transition (index, targetId)))) =
     (if controls interp targetId = None then [] else [Start targetId target transition])"
  by (cases "controls interp targetId")
     (simp_all add: effects_startTarget_missing effects_startTarget_registered)

lemma handle_calls_fan_out:
  "filter isHandleCall
     (concat (map (\<lambda>it. map snd (effects (startTarget interp stagger n target transition it)))
        (enumerate k targets))) =
   map (\<lambda>t. Start t target transition) (filter (\<lambda>t. controls interp t \<noteq> None) targets)"
proof (induction targets arbitrary: k)
  case Nil
  then show ?case by simp
next
  case (Cons t targets)
  show ?case
    using Cons.IH [of "Suc k"] handle_calls_startTarget [of interp stagger n target transition k t]
    by simp
qed

lemma handleCalls_startAll:
  "handleCalls (startAll interp stagger targets target transition) =
     map (\<lambda>t. Start t target transition) (filter (\<lambda>t. controls interp t \<noteq> None) targets)"
proof -
  have "map snd (effects (startAll interp stagger targets target transition)) =
          concat (map (\<lambda>it. map snd (effects (startTarget interp stagger (length targets) target transition it)))
                    (enumerate 0 targets))"
    by (simp add: startAll_def allOf_def map_concat comp_def)
  then show ?thesis
    by (simp add: handleCalls_def handle_calls_fan_out)
qed

lemma warnings_startAll:
  assumes "t \<in> set targets" "controls interp t = None"
  shows "Warn (''No control registered for element: '' @ t)
           \<in> set (map snd (effects (startAll interp stagger targets target transition)))"
proof -
  let ?w = "Warn (''No control registered for element: '' @ t)"
  from assms(1) obtain i where i: "i < length targets" "targets ! i = t"
    by (auto simp: in_set_conv_nth)
  then have mem: "(i, t) \<in> set (enumerate 0 targets)"
    by (auto simp: in_set_enumerate_eq)
  have "effects (startTarget interp stagger (length targets) target transition (i, t)) = [(0, ?w)]"
    using assms(2) by (simp add: startTarget_def effect_def)
  then have "(0, ?w) \<in> set (effects (startTarget interp stagger (length targets) target transition (i, t)))"
    by simp
  with mem have "(0, ?w) \<in> set (effects (startAll interp stagger targets target transition))"
    unfolding startAll_def allOf_def by simp blast
  then show ?thesis by force
qed

lemma repeatLoop_finite:
  "\<exists>outcome. repeatLoop interp (Count c) body iteration sofar = Some outcome"
proof (induction "nat \<lceil>c\<rceil> - iteration" arbitrary: iteration sofar)
  case 0
  then have "nat \<lceil>c\<rceil> \<le> iteration" by simp
  then have "real (nat \<lceil>c\<rceil>) \<le> real iteration" by simp
  moreover have "c \<le> real (nat \<lceil>c\<rceil>)" by (rule real_nat_ceiling_ge)
  ultimately have "\<not> real iteration < c" by linarith
  then show ?case by (subst repeatLoop.simps) simp
next
  case (Suc k)
  show ?case
  proof (cases "real iteration < c \<and> state interp \<noteq> Stopped")
    case True
    from Suc(2) have "k = nat \<lceil>c\<rceil> - (iteration + 1)" by simp
    from Suc(1) [OF this] obtain outcome where
      "repeatLoop interp (Count c) body (iteration + 1) (andThen sofar body) = Some outcome"
      by blast
    with True show ?thesis by (subst repeatLoop.simps) simp
  next
    case False
    then show ?thesis by (subst repeatLoop.simps) auto
  qed
qed

lemma repeatLoop_infinite_no_outcome:
  assumes r: "repeatLoop interp count body iteration sofar = Some outcome"
  shows "\<not> (count = Infinite \<and> state interp \<noteq> Stopped)"
  by (rule repeatLoop.raw_induct
        [where P = "\<lambda>interp count body iteration sofar y. \<not> (count = Infinite \<and> state interp \<noteq> Stopped)",
         OF _ r])
     (auto split: if_splits)

lemma repeatLoop_infinite:
  "state interp \<noteq> Stopped \<Longrightarrow> repeatLoop interp Infinite body iteration sofar = None"
  using repeatLoop_infinite_no_outcome [of interp Infinite body iteration sofar]
  by (cases "repeatLoop interp Infinite body iteration sofar") auto
lemma handleCalls_aroundBlock:
  "state interp \<noteq> Stopped \<Longrightarrow>
   handleCalls (aroundBlock interp base kind handler) = handleCalls handler"
  by (simp add: handleCalls_def effects_aroundBlock)

lemma handleCalls_delayIfSet [simp]: "handleCalls (delayIfSet v) = []"
  by (simp add: handleCalls_def)

lemma handleCalls_warning [simp]: "handleCalls (effect (Warn w)) = []"
  by (simp add: handleCalls_def)

lemma handleCalls_single [simp]:
  "handleCalls \<lparr>elapsed = e, effects = [(0, Start t target transition)]\<rparr> = [Start t target transition]"
  by (simp add: handleCalls_def)

lemma executeSequence_completes:
  assumes "repeat sequence = None \<or> (\<exists>r c. repeat sequence = Some r \<and> repeat_count r = Count c)"
  shows "\<exists>outcome. executeSequence interp sequence = Some outcome"
proof (cases "repeat sequence")
  case None
  then show ?thesis by (simp add: executeSequence_def Let_def)
next
  case (Some r)
  with assms obtain c where c: "repeat_count r = Count c" by auto
  from repeatLoop_finite obtain rounds where
    "repeatLoop interp (Count c)
       (andThen (runAnimations interp (animations sequence)) (delayIfSet (repeat_delay r))) 0
       (andThen (effect (Emit (SequenceStart (sequence_id sequence))))
          (case trigger sequence of Mount d \<Rightarrow> delayIfSet d | OtherTrigger t \<Rightarrow> immediately))
     = Some rounds"
    by blast
  with Some c show ?thesis by (simp add: executeSequence_def Let_def)
qed

lemma boxInterpreter_running: "state boxInterpreter \<noteq> Stopped"
  by (simp add: boxInterpreter_def play_def registerControl_def createInterpreter_def)

lemma boxInterpreter_controls:
  "controls boxInterpreter ''box'' = Some boxControl" "controls boxInterpreter ''card'' = None"
  by (simp_all add: boxInterpreter_def play_def registerControl_def createInterpreter_def)


lemma handleCalls_andThen: "handleCalls (andThen a b) = handleCalls a @ handleCalls b"
  by (simp add: handleCalls_def effects_andThen)

lemma handleCalls_immediately [simp]: "handleCalls immediately = []"
  by (simp add: handleCalls_def)

lemma handleCalls_emit [simp]: "handleCalls (effect (Emit e)) = []"
  by (simp add: handleCalls_def)

lemma handleCalls_runAnimations:
  "state interp \<noteq> Stopped \<Longrightarrow>
   handleCalls (runAnimations interp (before @ block # after)) =
     handleCalls (runAnimations interp before) @ handleCalls (executeAnimationBlock interp block)
       @ handleCalls (runAnimations interp after)"
  by (induction before) (simp_all add: handleCalls_andThen)

lemma repeatLoop_rounds:
  assumes "state interp \<noteq> Stopped"
  shows "\<exists>outcome. repeatLoop interp (Count c) body iteration sofar = Some outcome
           \<and> handleCalls outcome =
               handleCalls sofar @ concat (replicate (nat \<lceil>c\<rceil> - iteration) (handleCalls body))"
proof (induction "nat \<lceil>c\<rceil> - iteration" arbitrary: iteration sofar)
  case 0
  then have "nat \<lceil>c\<rceil> \<le> iteration" by simp
  then have "real (nat \<lceil>c\<rceil>) \<le> real iteration" by simp
  moreover have "c \<le> real (nat \<lceil>c\<rceil>)" by (rule real_nat_ceiling_ge)
  ultimately have "\<not> real iteration < c" by linarith
  with 0 show ?case by (subst repeatLoop.simps) simp
next
  case (Suc k)
  from Suc(2) have lt: "iteration < nat \<lceil>c\<rceil>" by simp
  then have "int iteration < \<lceil>c\<rceil>" by (simp add: zless_nat_eq_int_zless)
  then have "of_int (int iteration) < c" by (simp only: less_ceiling_iff)
  then have below: "real iteration < c" by simp
  from Suc(2) have k: "k = nat \<lceil>c\<rceil> - (iteration + 1)" by simp
  from Suc(1) [OF k] obtain outcome where
    o: "repeatLoop interp (Count c) body (iteration + 1) (andThen sofar body) = Some outcome"
    and calls: "handleCalls outcome = handleCalls (andThen sofar body)
                  @ concat (replicate (nat \<lceil>c\<rceil> - (iteration + 1)) (handleCalls body))"
    by blast
  from Suc(2) k have "nat \<lceil>c\<rceil> - iteration = Suc (nat \<lceil>c\<rceil> - (iteration + 1))" by simp
  with calls have "handleCalls outcome =
      handleCalls sofar @ concat (replicate (nat \<lceil>c\<rceil> - iteration) (handleCalls body))"
    by (simp add: handleCalls_andThen)
  then show ?case using o assms below by (subst repeatLoop.simps) simp
qed

lemma executeSequence_endless:
  assumes "state interp \<noteq> Stopped" and "\<not> sequenceIsActive interp (sequence_id sequence)"
  shows "(executeSequence interp sequence = None) =
           (\<exists>r. repeat sequence = Some r \<and> repeat_count r = Infinite)"
proof (cases "repeat sequence")
  case None
  with assms show ?thesis by (simp add: executeSequence_def Let_def)
next
  case (Some r)
  show ?thesis
  proof (cases "repeat_count r")
    case (Count c)
    from repeatLoop_rounds [OF assms(1)] obtain rounds where
      "repeatLoop interp (Count c)
       (andThen (runAnimations interp (animations sequence)) (delayIfSet (repeat_delay r))) 0
       (andThen (effect (Emit (SequenceStart (sequence_id sequence))))
          (case trigger sequence of Mount d \<Rightarrow> delayIfSet d | OtherTrigger t \<Rightarrow> immediately))
     = Some rounds"
      by blast
    with Some Count assms show ?thesis by (simp add: executeSequence_def Let_def)
  next
    case Infinite
    with Some assms repeatLoop_infinite [OF assms(1)] show ?thesis
      by (simp add: executeSequence_def Let_def)
  qed
qed

definition roundsOf :: "RepeatDefinition option \<Rightarrow> nat" where
  "roundsOf r = (case r of None \<Rightarrow> 1
     | Some d \<Rightarrow> (case repeat_count d of Count c \<Rightarrow> nat \<lceil>c\<rceil> | Infinite \<Rightarrow> 0))"

lemma handleCalls_trigger [simp]:
  "handleCalls (case tr of Mount d \<Rightarrow> delayIfSet d | OtherTrigger t \<Rightarrow> immediately) = []"
  by (cases tr) simp_all

lemma handleCalls_opening [simp]:
  "handleCalls (andThen (effect (Emit e))
     (case tr of Mount d \<Rightarrow> delayIfSet d | OtherTrigger t \<Rightarrow> immediately)) = []"
  by (cases tr) (simp_all add: handleCalls_andThen)

lemma executeSequence_calls:
  assumes "state interp \<noteq> Stopped" and "\<not> sequenceIsActive interp (sequence_id sequence)"
    and "executeSequence interp sequence = Some outcome"
  shows "handleCalls outcome =
           concat (replicate
             (case repeat sequence of None \<Rightarrow> 1
              | Some r \<Rightarrow> (case repeat_count r of Count c \<Rightarrow> nat \<lceil>c\<rceil> | Infinite \<Rightarrow> 0))
             (handleCalls (runAnimations interp (animations sequence))))"
proof (cases "repeat sequence")
  case None
  with assms show ?thesis
    by (auto simp: executeSequence_def Let_def handleCalls_andThen)
next
  case (Some r)
  show ?thesis
  proof (cases "repeat_count r")
    case (Count c)
    let ?body = "andThen (runAnimations interp (animations sequence)) (delayIfSet (repeat_delay r))"
    let ?opening = "andThen (effect (Emit (SequenceStart (sequence_id sequence))))
          (case trigger sequence of Mount d \<Rightarrow> delayIfSet d | OtherTrigger t \<Rightarrow> immediately)"
    from repeatLoop_rounds [OF assms(1), of c ?body 0 ?opening] obtain rounds where
      r: "repeatLoop interp (Count c) ?body 0 ?opening = Some rounds"
      and calls: "handleCalls rounds = handleCalls ?opening
                    @ concat (replicate (nat \<lceil>c\<rceil> - 0) (handleCalls ?body))"
      by blast
    from assms Some Count r have "outcome = andThen rounds (effect (Emit (SequenceEnd (sequence_id sequence))))"
      by (simp add: executeSequence_def Let_def)
    with calls Some Count show ?thesis by (simp add: handleCalls_andThen)
  next
    case Infinite
    with Some assms executeSequence_endless [OF assms(1,2)] show ?thesis by simp
  qed
qed

lemma fan_out_of_block:
  assumes "state interp \<noteq> Stopped"
    and "block = SpringBlock base target to spring
         \<or> block = TransitionBlock base target to dur easing
         \<or> block = KeyframesBlock base target keyframes dur easing"
  obtains vals transition where
    "executeAnimationBlock interp block =
       aroundBlock interp base (typeOf block)
         (startAll interp (block_stagger base) (targetsOf target) vals transition)"
    and "block = SpringBlock base target to spring \<Longrightarrow>
           vals = convertStateToFramerMotion to \<and> transition = convertSpringConfig spring"
    and "block = TransitionBlock base target to dur easing \<Longrightarrow>
           vals = convertStateToFramerMotion to"
    and "block = KeyframesBlock base target keyframes dur easing \<Longrightarrow>
           vals = keyframeProperties keyframes"
  using assms(2)
  by (auto simp: executeSpring_def executeTransition_def executeKeyframes_def Let_def)

lemma handlers_start_registered_targets:
  "handleCalls (executeSpring interp base target to spring) =
     map (\<lambda>t. Start t (convertStateToFramerMotion to) (convertSpringConfig spring))
       (filter (\<lambda>t. controls interp t \<noteq> None) (targetsOf target))"
  "\<exists>transition. handleCalls (executeTransition interp base target to dur easing) =
     map (\<lambda>t. Start t (convertStateToFramerMotion to) transition)
       (filter (\<lambda>t. controls interp t \<noteq> None) (targetsOf target))"
  "\<exists>transition. handleCalls (executeKeyframes interp base target keyframes dur easing) =
     map (\<lambda>t. Start t (keyframeProperties keyframes) transition)
       (filter (\<lambda>t. controls interp t \<noteq> None) (targetsOf target))"
  by (simp_all add: executeSpring_def executeTransition_def executeKeyframes_def Let_def
        handleCalls_startAll)


text \<open>
  Claim C5.  In an interpreter that is not stopped, take a spring, transition or
  keyframes block in the animation list of a sequence that is not yet running, and a
  target of the block that has no registered handle.  Executing the block calls \<open>start\<close>
  once, with the values and the transition of the block, for every target of the block
  that has a handle, in their order, and calls no handle operation for the others; the
  target without a handle gets a warning.  The run of the sequence has an outcome,
  unless the sequence repeats without end (count \<open>'infinite'\<close>), which is the only run
  that has none, with or without handles; in every round of the run the blocks before
  the block, the block with the same calls, and the blocks after it are executed.
\<close>

theorem missing_handle_is_skipped:
  assumes running: "state interp \<noteq> Stopped"
    and fresh: "\<not> sequenceIsActive interp (sequence_id sequence)"
    and place: "animations sequence = before @ block # after"
    and kind: "block = SpringBlock base target to spring
               \<or> block = TransitionBlock base target to dur easing
               \<or> block = KeyframesBlock base target keyframes dur easing"
    and listed: "missing \<in> set (targetsOf target)"
    and missing: "controls interp missing = None"
  shows "\<exists>vals transition.
      handleCalls (executeAnimationBlock interp block) =
        map (\<lambda>t. Start t vals transition)
          (filter (\<lambda>t. controls interp t \<noteq> None) (targetsOf target))
    \<and> (block = SpringBlock base target to spring \<longrightarrow>
          vals = convertStateToFramerMotion to \<and> transition = convertSpringConfig spring)
    \<and> (block = TransitionBlock base target to dur easing \<longrightarrow>
          vals = convertStateToFramerMotion to)
    \<and> (block = KeyframesBlock base target keyframes dur easing \<longrightarrow>
          vals = keyframeProperties keyframes)
    \<and> Warn (''No control registered for element: '' @ missing)
          \<in> set (map snd (effects (executeAnimationBlock interp block)))
    \<and> ((executeSequence interp sequence = None) =
          (\<exists>r. repeat sequence = Some r \<and> repeat_count r = Infinite))
    \<and> (\<forall>outcome. executeSequence interp sequence = Some outcome \<longrightarrow>
          handleCalls outcome =
            concat (replicate
              (case repeat sequence of None \<Rightarrow> 1
               | Some r \<Rightarrow> (case repeat_count r of Count c \<Rightarrow> nat \<lceil>c\<rceil> | Infinite \<Rightarrow> 0))
              (handleCalls (runAnimations interp before)
               @ map (\<lambda>t. Start t vals transition)
                   (filter (\<lambda>t. controls interp t \<noteq> None) (targetsOf target))
               @ handleCalls (runAnimations interp after))))"
proof -
  from fan_out_of_block [OF running kind] obtain vals transition where
    form: "executeAnimationBlock interp block =
       aroundBlock interp base (typeOf block)
         (startAll interp (block_stagger base) (targetsOf target) vals transition)"
    and spring: "block = SpringBlock base target to spring \<Longrightarrow>
           vals = convertStateToFramerMotion to \<and> transition = convertSpringConfig spring"
    and trans: "block = TransitionBlock base target to dur easing \<Longrightarrow>
           vals = convertStateToFramerMotion to"
    and keyfr: "block = KeyframesBlock base target keyframes dur easing \<Longrightarrow>
           vals = keyframeProperties keyframes"
    by blast
  have calls: "handleCalls (executeAnimationBlock interp block) =
        map (\<lambda>t. Start t vals transition)
          (filter (\<lambda>t. controls interp t \<noteq> None) (targetsOf target))"
    using running by (simp add: form handleCalls_aroundBlock handleCalls_startAll)
  have "Warn (''No control registered for element: '' @ missing)
          \<in> set (map snd (effects (startAll interp (block_stagger base) (targetsOf target) vals transition)))"
    by (rule warnings_startAll [OF listed missing])
  then have warn: "Warn (''No control registered for element: '' @ missing)
          \<in> set (map snd (effects (executeAnimationBlock interp block)))"
    using running by (simp add: form effects_aroundBlock)
  have endless: "(executeSequence interp sequence = None) =
          (\<exists>r. repeat sequence = Some r \<and> repeat_count r = Infinite)"
    by (rule executeSequence_endless [OF running fresh])
  have run: "handleCalls outcome =
            concat (replicate
              (case repeat sequence of None \<Rightarrow> 1
               | Some r \<Rightarrow> (case repeat_count r of Count c \<Rightarrow> nat \<lceil>c\<rceil> | Infinite \<Rightarrow> 0))
              (handleCalls (runAnimations interp before)
               @ map (\<lambda>t. Start t vals transition)
                   (filter (\<lambda>t. controls interp t \<noteq> None) (targetsOf target))
               @ handleCalls (runAnimations interp after)))"
    if "executeSequence interp sequence = Some outcome" for outcome
    using executeSequence_calls [OF running fresh that]
    by (simp add: place handleCalls_runAnimations [OF running] calls)
  from calls spring trans keyfr warn endless run show ?thesis
    by (intro exI [where x = vals] exI [where x = transition]) auto
qed


text \<open>Witness for claim C5: the spring on \<open>card\<close>, which has no handle, and \<open>box\<close>, in
  the sequence without a repeat, with two rounds, and with a repeat without end.\<close>

theorem missing_handle_is_skipped_witness:
  "handleCalls (executeAnimationBlock boxInterpreter cardAndBox)
     = [Start ''box'' [(''x'', Direct (NumberValue 100))] (SpringPhysics 400 10 1 None None None)]
   \<and> Warn ''No control registered for element: card''
       \<in> set (map snd (effects (executeAnimationBlock boxInterpreter cardAndBox)))
   \<and> (\<exists>outcome. executeSequence boxInterpreter pulseOnce = Some outcome
        \<and> handleCalls outcome =
            [Start ''box'' [(''x'', Direct (NumberValue 100))] (SpringPhysics 400 10 1 None None None)])
   \<and> (\<exists>outcome. executeSequence boxInterpreter pulseTwice = Some outcome
        \<and> handleCalls outcome =
            [Start ''box'' [(''x'', Direct (NumberValue 100))] (SpringPhysics 400 10 1 None None None),
             Start ''box'' [(''x'', Direct (NumberValue 100))] (SpringPhysics 400 10 1 None None None)])
   \<and> executeSequence boxInterpreter endlessSequence = None"
proof -
  let ?start = "Start ''box'' [(''x'', Direct (NumberValue 100))] (SpringPhysics 400 10 1 None None None)"
  have running: "state boxInterpreter \<noteq> Stopped" by (rule boxInterpreter_running)
  have fresh: "\<not> sequenceIsActive boxInterpreter (sequence_id s)"
    if "sequence_id s = Some ''pulse''" for s
    using that
    by (simp add: sequenceIsActive_def boxInterpreter_def play_def registerControl_def
          createInterpreter_def)
  have kind: "cardAndBox = SpringBlock plainBlock (TargetArray [''card'', ''box'']) boxMoved bouncySpring
     \<or> cardAndBox = TransitionBlock plainBlock (TargetArray [''card'', ''box'']) boxMoved None None
     \<or> cardAndBox = KeyframesBlock plainBlock (TargetArray [''card'', ''box'']) [] None None"
    by (simp add: cardAndBox_def)
  have listed: "''card'' \<in> set (targetsOf (TargetArray [''card'', ''box'']))" by simp
  have missing: "controls boxInterpreter ''card'' = None" by (rule boxInterpreter_controls)
  have reg: "filter (\<lambda>t. controls boxInterpreter t \<noteq> None) (targetsOf (TargetArray [''card'', ''box''])) = [''box'']"
    by (simp add: boxInterpreter_controls)
  have conv: "convertStateToFramerMotion boxMoved = [(''x'', Direct (NumberValue 100))]"
    by (simp add: convertStateToFramerMotion_def boxMoved_def copyProperty_def filterPiece_def)
  have spr: "convertSpringConfig bouncySpring = SpringPhysics 400 10 1 None None None"
    by (simp add: convertSpringConfig_def bouncySpring_def orDefault_def)
  have empty: "handleCalls (runAnimations boxInterpreter []) = []" by (simp add: handleCalls_def)
  have once: "animations pulseOnce = [] @ cardAndBox # []" "sequence_id pulseOnce = Some ''pulse''"
    "repeat pulseOnce = None"
    by (simp_all add: pulseOnce_def endlessSequence_def cardAndBox_def)
  have twice: "animations pulseTwice = [] @ cardAndBox # []" "sequence_id pulseTwice = Some ''pulse''"
    "repeat pulseTwice = Some \<lparr>repeat_count = Count 2, repeat_delay = None\<rparr>"
    by (simp_all add: pulseTwice_def endlessSequence_def cardAndBox_def)
  have endless: "animations endlessSequence = [] @ cardAndBox # []"
    "sequence_id endlessSequence = Some ''pulse''"
    "repeat endlessSequence = Some \<lparr>repeat_count = Infinite, repeat_delay = None\<rparr>"
    by (simp_all add: endlessSequence_def cardAndBox_def)
  have a: "handleCalls (executeAnimationBlock boxInterpreter cardAndBox) = [?start]
     \<and> Warn ''No control registered for element: card''
         \<in> set (map snd (effects (executeAnimationBlock boxInterpreter cardAndBox)))
     \<and> (\<exists>outcome. executeSequence boxInterpreter pulseOnce = Some outcome
          \<and> handleCalls outcome = [?start])"
    using missing_handle_is_skipped
      [OF running fresh [OF once(2)] once(1) kind listed missing]
    by (auto simp: once(3) boxInterpreter_controls conv spr empty cardAndBox_def)
  have b: "\<exists>outcome. executeSequence boxInterpreter pulseTwice = Some outcome
          \<and> handleCalls outcome = [?start, ?start]"
    using missing_handle_is_skipped
      [OF running fresh [OF twice(2)] twice(1) kind listed missing]
    by (auto simp: twice(3) boxInterpreter_controls conv spr empty cardAndBox_def numeral_2_eq_2)
  have c: "executeSequence boxInterpreter endlessSequence = None"
    using missing_handle_is_skipped
      [OF running fresh [OF endless(2)] endless(1) kind listed missing]
    by (auto simp: endless(3))
  from a b c show ?thesis by simp
qed


subsection \<open>Placeholder blocks\<close>

text \<open>
  Claim C8, as amended.  While the interpreter is not stopped: executing a particles or a
  text block takes the waits for its offset, its delay and its declared duration
  (nothing for a duration that is absent or zero) and calls no handle operation;
  executing a morph block does not wait for the duration: for a target with a registered
  handle it calls \<open>start\<close> of that handle once, with the path \<open>d\<close> set to the block's \<open>to\<close>,
  and takes as long as that call, and for a target without a handle it calls no handle
  operation and takes no time beyond offset and delay.
\<close>

theorem timed_placeholder_blocks:
  assumes "state interp \<noteq> Stopped"
  shows "elapsed (executeAnimationBlock interp (ParticlesBlock base dur)) =
           waited (block_offset base) + waited (block_delay base) + waited dur
       \<and> handleCalls (executeAnimationBlock interp (ParticlesBlock base dur)) = []
       \<and> elapsed (executeAnimationBlock interp (TextBlock base dur)) =
           waited (block_offset base) + waited (block_delay base) + waited dur
       \<and> handleCalls (executeAnimationBlock interp (TextBlock base dur)) = []
       \<and> (\<forall>control. controls interp target = Some control \<longrightarrow>
            handleCalls (executeAnimationBlock interp (MorphBlock base target to dur easing)) =
              [Start target [(''d'', Direct (StringValue to))]
                 (Timed (orDefault dur 500 / 1000)
                    (Some (orDefault (convertEasing easing) (CubicBezier 0.25 0.1 0.25 1))) None)]
          \<and> elapsed (executeAnimationBlock interp (MorphBlock base target to dur easing)) =
              waited (block_offset base) + waited (block_delay base)
              + startTakes control [(''d'', Direct (StringValue to))]
                  (Timed (orDefault dur 500 / 1000)
                     (Some (orDefault (convertEasing easing) (CubicBezier 0.25 0.1 0.25 1))) None))
       \<and> (controls interp target = None \<longrightarrow>
            handleCalls (executeAnimationBlock interp (MorphBlock base target to dur easing)) = []
          \<and> elapsed (executeAnimationBlock interp (MorphBlock base target to dur easing)) =
              waited (block_offset base) + waited (block_delay base))"
  using assms
  by (auto simp: elapsed_aroundBlock handleCalls_aroundBlock executeParticles_def executeText_def
        executeMorph_def Let_def)


text \<open>Witness for claim C8: blocks with a duration of 500 milliseconds, the morph ones
  on \<open>box\<close> (whose handle takes 300) and on \<open>card\<close> (which has none).\<close>

theorem timed_placeholder_blocks_witness:
  "elapsed (executeAnimationBlock boxInterpreter (ParticlesBlock plainBlock (Some 500))) = 500
   \<and> handleCalls (executeAnimationBlock boxInterpreter (TextBlock plainBlock (Some 500))) = []
   \<and> elapsed (executeAnimationBlock boxInterpreter (MorphBlock plainBlock ''box'' ''M0 0L10 10'' (Some 500) None)) = 300
   \<and> elapsed (executeAnimationBlock boxInterpreter (MorphBlock plainBlock ''card'' ''M0 0L10 10'' (Some 500) None)) = 0"
  using timed_placeholder_blocks [OF boxInterpreter_running, of plainBlock "Some 500" "''box''" "''M0 0L10 10''" None]
    timed_placeholder_blocks [OF boxInterpreter_running, of plainBlock "Some 500" "''card''" "''M0 0L10 10''" None]
    boxInterpreter_controls
  by (simp add: plainBlock_def waited_def boxControl_def)


text \<open>Counterexample for claim C8 as stated: executing a morph block on \<open>box\<close> calls
  \<open>start\<close> of its handle.\<close>

theorem morph_starts_the_target:
  "handleCalls (executeAnimationBlock boxInterpreter (MorphBlock plainBlock ''box'' ''M0 0L10 10'' (Some 500) None))
     = [Start ''box'' [(''d'', Direct (StringValue ''M0 0L10 10''))]
          (Timed (1 / 2) (Some (CubicBezier 0.25 0.1 0.25 1)) None)]"
  using boxInterpreter_running boxInterpreter_controls
  by (simp add: handleCalls_aroundBlock executeMorph_def Let_def orDefault_def convertEasing_def)

subsection \<open>Stop\<close>












section \<open>The validator: validated data validates again\<close>

subsection \<open>Results of parsing\<close>






subsection \<open>Parsed members\<close>






subsection \<open>Objects of primitive keys\<close>



subsection \<open>The schemas of the program are well formed\<close>



text \<open>
  The defaults of the program, the empty object for \<open>initial\<close> and the empty array
  for \<open>children\<close>, are returned unchanged by the schemas they stand in for, so that
  returning the default and parsing it give the same value.
\<close>

lemma defaults_parse_to_themselves:
  "parse (optional ElementStateSchema) (Some (JsonObject [])) = Success (Some (JsonObject []))"
  "parse (optional (z_array z_string)) (Some (JsonArray [])) = Success (Some (JsonArray []))"
  by (simp_all add: ElementStateSchema_def Let_def)



subsection \<open>A parsed value is accepted again\<close>






lemma validateDSLString_reads:
  "JSON_parse jsonString = Some v \<Longrightarrow> validateDSLString JSON_parse jsonString = validateDSL v"
  by (simp add: validateDSLString_def)



subsection \<open>Array variables\<close>

text \<open>
  The validator accepts a document whose variable is an array of numbers and whose
  field is a dotted reference into it: the schema of the variable table admits the
  array, and the expression test admits the dot.
\<close>

lemma array_variable_document_accepted:
  "\<exists>d. validateDSL arrayVariableDocument = Valid d"
  by (simp add: validateDSL_def safeParse_def arrayVariableDocument_def
      KineticAnimationSchema_def TimelineDefinitionSchema_def
      ElementDefinitionSchema_def BaseElementSchema_def ElementStateSchema_def
      NumberOrExpressionSchema_def isExpression_def startsWith_def isWordChar_def Let_def)
end
